theory Spec2Isabelle
  imports Complex_Main "HOL-Library.Multiset"
begin

section \<open>JavaScript values used by the feed\<close>

text \<open>
  The feed (\<^verbatim>\<open>relief_script.js\<close>, class \<^verbatim>\<open>IndiaDisasterFeed\<close>) handles strings that
  may be missing.  A payload field that the provider may leave out is a \<open>string option\<close>
  (\<open>None\<close> is \<^verbatim>\<open>undefined\<close>).  A field of a produced event that is not guaranteed to be a
  string is a \<open>jsval\<close>: \<^verbatim>\<open>undefined\<close>, a string, or a member that a lookup in an object
  literal found on \<^verbatim>\<open>Object.prototype\<close> (a function such as \<^verbatim>\<open>constructor\<close>, or the
  prototype object itself for \<^verbatim>\<open>__proto__\<close>), named by its key.
\<close>

datatype jsval = JUndefined | JStr string | JProto string

text \<open>Truthiness: \<^verbatim>\<open>undefined\<close> and the empty string are falsy, objects are truthy.\<close>

fun truthy :: "jsval \<Rightarrow> bool" where
  "truthy JUndefined = False"
| "truthy (JStr s) = (s \<noteq> [])"
| "truthy (JProto k) = True"

text \<open>\<^verbatim>\<open>a || b\<close>\<close>

definition js_or :: "jsval \<Rightarrow> jsval \<Rightarrow> jsval" where
  "js_or a b = (if truthy a then a else b)"

fun of_field :: "string option \<Rightarrow> jsval" where
  "of_field None = JUndefined"
| "of_field (Some s) = JStr s"

text \<open>\<^verbatim>\<open>x || 'default'\<close> for a string field \<open>x\<close> that may be missing.\<close>

fun str_or :: "string option \<Rightarrow> string \<Rightarrow> string" where
  "str_or None d = d"
| "str_or (Some s) d = (if s = [] then d else s)"

text \<open>A value inside a template literal: \<^verbatim>\<open>`${x}`\<close>.\<close>

fun template :: "string option \<Rightarrow> string" where
  "template None = ''undefined''"
| "template (Some s) = s"

subsection \<open>Property lookup in an object literal\<close>

text \<open>
  \<^verbatim>\<open>mapping[key]\<close> on an object literal finds the literal's own properties first and then
  the properties every object inherits from \<^verbatim>\<open>Object.prototype\<close>.
\<close>

definition object_prototype_keys :: "string list" where
  "object_prototype_keys =
     [''constructor'', ''hasOwnProperty'', ''isPrototypeOf'', ''propertyIsEnumerable'',
      ''toLocaleString'', ''toString'', ''valueOf'', ''__proto__'',
      ''__defineGetter__'', ''__defineSetter__'', ''__lookupGetter__'', ''__lookupSetter__'']"

datatype 'v property = Own 'v | Inherited string | Missing

text \<open>
  The key is converted to a string first: \<^verbatim>\<open>undefined\<close> becomes \<^verbatim>\<open>"undefined"\<close>; a
  function or the prototype object becomes its printed text, which is no key of any
  table here.
\<close>

fun property_key :: "jsval \<Rightarrow> string option" where
  "property_key JUndefined = Some ''undefined''"
| "property_key (JStr s) = Some s"
| "property_key (JProto k) = None"

definition get_property :: "(string \<times> 'v) list \<Rightarrow> jsval \<Rightarrow> 'v property" where
  "get_property obj key =
     (case property_key key of
        None \<Rightarrow> Missing
      | Some k \<Rightarrow>
          (case map_of obj k of
             Some v \<Rightarrow> Own v
           | None \<Rightarrow> if k \<in> set object_prototype_keys then Inherited k else Missing))"

fun string_property :: "string property \<Rightarrow> jsval" where
  "string_property (Own v) = JStr v"
| "string_property (Inherited k) = JProto k"
| "string_property Missing = JUndefined"

subsection \<open>Strings\<close>

text \<open>
  Strings are lists of 8-bit characters; \<^verbatim>\<open>toLowerCase\<close> is modelled on the ASCII
  letters and leaves every other character alone.
\<close>

definition lower_char :: "char \<Rightarrow> char" where
  "lower_char c =
     (case map_of (zip ''ABCDEFGHIJKLMNOPQRSTUVWXYZ'' ''abcdefghijklmnopqrstuvwxyz'') c of
        Some l \<Rightarrow> l
      | None \<Rightarrow> c)"

definition toLowerCase :: "string \<Rightarrow> string" where
  "toLowerCase s = map lower_char s"

fun starts_with :: "string \<Rightarrow> string \<Rightarrow> bool" where
  "starts_with s [] = True"
| "starts_with [] (k # ks) = False"
| "starts_with (c # cs) (k # ks) = (c = k \<and> starts_with cs ks)"

text \<open>\<open>contains s k\<close>: the word \<open>k\<close> occurs somewhere in \<open>s\<close>.\<close>

fun contains :: "string \<Rightarrow> string \<Rightarrow> bool" where
  "contains [] k = starts_with [] k"
| "contains (c # cs) k = (starts_with (c # cs) k \<or> contains cs k)"

text \<open>
  \<^verbatim>\<open>s.match(/w1|w2|...|wn/i)\<close> used as a condition: some alternative occurs in \<open>s\<close>,
  letters compared without regard to case.
\<close>

definition match_i :: "string list \<Rightarrow> string \<Rightarrow> bool" where
  "match_i ws s = list_ex (\<lambda>w. contains (toLowerCase s) (toLowerCase w)) ws"

text \<open>
  \<^verbatim>\<open>trim\<close> removes white space and line terminators at both ends; among the characters
  with a code below 256 these are tab, line feed, vertical tab, form feed, carriage
  return, space and the no-break space (160).
\<close>

definition is_space :: "char \<Rightarrow> bool" where
  "is_space c = (of_char c \<in> {9, 10, 11, 12, 13, 32, 160 :: nat})"

definition trim :: "string \<Rightarrow> string" where
  "trim s = rev (dropWhile is_space (rev (dropWhile is_space s)))"

section \<open>The common record\<close>

text \<open>
  The object every adapter builds.  \<open>date\<close> is the time value of the \<^verbatim>\<open>Date\<close> object in
  milliseconds; \<open>None\<close> is an Invalid Date (time value \<^verbatim>\<open>NaN\<close>).
\<close>

record DisasterEvent =
  ev_id :: jsval
  title :: jsval
  description :: string
  date :: "int option"
  location :: string
  disasterType :: jsval
  severity :: jsval
  source :: string
  url :: string
  country :: string

text \<open>
  A date field of a payload can hold any JSON value.  A number is kept as the value that
  \<^verbatim>\<open>JSON.parse\<close> gave it (a literal too large for a finite number, which is read as
  \<^verbatim>\<open>Infinity\<close>, as any value out of the range of dates).  An array or an object is kept as
  the text that the conversion to a primitive makes of it (the only thing \<^verbatim>\<open>new Date\<close>
  reads of it); a field that is absent is \<open>None\<close> (\<^verbatim>\<open>undefined\<close>).
\<close>

datatype json = JsonNull | JsonBool bool | JsonNumber rat | JsonString string | JsonObject string

text \<open>\<^verbatim>\<open>a || b\<close> on two such fields: \<^verbatim>\<open>undefined\<close>, \<^verbatim>\<open>null\<close>, \<^verbatim>\<open>false\<close>, 0 and the empty text are
  falsy.\<close>

fun json_truthy :: "json option \<Rightarrow> bool" where
  "json_truthy None = False"
| "json_truthy (Some JsonNull) = False"
| "json_truthy (Some (JsonBool b)) = b"
| "json_truthy (Some (JsonNumber q)) = (q \<noteq> 0)"
| "json_truthy (Some (JsonString t)) = (t \<noteq> [])"
| "json_truthy (Some (JsonObject t)) = True"

definition json_or :: "json option \<Rightarrow> json option \<Rightarrow> json option" where
  "json_or a b = (if json_truthy a then a else b)"

text \<open>
  A number becomes a time value when it lies within 8.64e15 milliseconds of the epoch, cut
  to an integer towards zero; outside that range the date is invalid.
\<close>

definition time_clip :: "rat \<Rightarrow> int option" where
  "time_clip q =
     (if \<bar>q\<bar> > 8640000000000000 then None
      else Some (if q \<ge> 0 then \<lfloor>q\<rfloor> else \<lceil>q\<rceil>))"

text \<open>
  \<^verbatim>\<open>new Date(v)\<close>: \<^verbatim>\<open>new Date(undefined)\<close> is an Invalid Date, \<^verbatim>\<open>new Date(null)\<close> is the epoch,
  \<^verbatim>\<open>true\<close> and \<^verbatim>\<open>false\<close> count as 1 and 0, a number is clipped, and a text goes through
  \<^verbatim>\<open>Date.parse\<close>, whose result for a given text is a parameter of the model (\<open>None\<close> where
  it yields \<^verbatim>\<open>NaN\<close>).
\<close>

fun new_Date :: "(string \<Rightarrow> int option) \<Rightarrow> json option \<Rightarrow> int option" where
  "new_Date parse None = None"
| "new_Date parse (Some JsonNull) = Some 0"
| "new_Date parse (Some (JsonBool b)) = Some (if b then 1 else 0)"
| "new_Date parse (Some (JsonNumber q)) = time_clip q"
| "new_Date parse (Some (JsonString t)) = parse t"
| "new_Date parse (Some (JsonObject t)) = parse t"

section \<open>GDACS code tables\<close>

definition gdacs_event_types :: "(string \<times> string) list" where
  "gdacs_event_types =
     [(''EQ'', ''Earthquake''), (''TC'', ''Tropical Cyclone''), (''FL'', ''Flood''),
      (''DR'', ''Drought''), (''VO'', ''Volcano''), (''WF'', ''Wildfire'')]"

definition mapGDACSEventType :: "jsval \<Rightarrow> jsval" where
  "mapGDACSEventType etype =
     js_or (string_property (get_property gdacs_event_types etype)) etype"

definition gdacs_alert_levels :: "(string \<times> string) list" where
  "gdacs_alert_levels = [(''Red'', ''high''), (''Orange'', ''medium''), (''Green'', ''low'')]"

definition mapGDACSAlertLevel :: "jsval \<Rightarrow> jsval" where
  "mapGDACSAlertLevel level =
     js_or (string_property (get_property gdacs_alert_levels level)) (JStr ''low'')"

section \<open>Errors and HTTP responses\<close>

text \<open>
  What an awaited call can throw: \<^verbatim>\<open>fetch\<close> rejecting, the \<^verbatim>\<open>Error\<close> objects the adapters
  throw on a response that is not ok, \<^verbatim>\<open>response.json()\<close> rejecting, and the
  \<^verbatim>\<open>TypeError\<close> of reading a property of \<^verbatim>\<open>undefined\<close>.
\<close>

datatype error = FetchRejected | ReliefWebStatus nat | ApiFailed string | JsonRejected | TypeError

text \<open>
  The outcome of \<^verbatim>\<open>await fetch(url)\<close>: rejected, or a response with its \<^verbatim>\<open>ok\<close> flag, its
  status and its body as \<^verbatim>\<open>response.json()\<close> reads it (\<open>None\<close> when that rejects).
\<close>

datatype 'j response = Rejected | Response bool nat "'j option"

text \<open>\<^verbatim>\<open>xs.map(f)\<close> and \<^verbatim>\<open>xs.filter(f)\<close> with a callback that can throw.\<close>

fun map_result :: "('a \<Rightarrow> error + 'b) \<Rightarrow> 'a list \<Rightarrow> error + 'b list" where
  "map_result f [] = Inr []"
| "map_result f (x # xs) =
     (case f x of
        Inl e \<Rightarrow> Inl e
      | Inr y \<Rightarrow> (case map_result f xs of Inl e \<Rightarrow> Inl e | Inr ys \<Rightarrow> Inr (y # ys)))"

fun filter_result :: "('a \<Rightarrow> error + bool) \<Rightarrow> 'a list \<Rightarrow> error + 'a list" where
  "filter_result f [] = Inr []"
| "filter_result f (x # xs) =
     (case f x of
        Inl e \<Rightarrow> Inl e
      | Inr b \<Rightarrow>
          (case filter_result f xs of
             Inl e \<Rightarrow> Inl e
           | Inr ys \<Rightarrow> Inr (if b then x # ys else ys)))"

section \<open>ReliefWeb: payload and normalisation\<close>

record named_obj =
  obj_name :: "string option"

record rw_date =
  created :: "json option"
  original :: "json option"

record rw_headline =
  summary :: "string option"

record rw_fields =
  f_title :: "string option"
  f_body :: "string option"
  f_headline :: "rw_headline option"
  f_date :: "rw_date option"
  f_primary_country :: "named_obj option"
  f_country :: "named_obj list option"
  f_location :: "named_obj list option"
  f_disaster_type :: "named_obj list option"
  f_theme :: "named_obj list option"
  f_source :: "named_obj list option"
  f_url :: "string option"
  f_url_alias :: "string option"

record rw_item =
  item_id :: "string option"
  item_fields :: "rw_fields option"

record rw_json =
  rw_data :: "rw_item list option"

text \<open>\<^verbatim>\<open>xs?.[0]?.name\<close>\<close>

fun first_name :: "named_obj list option \<Rightarrow> string option" where
  "first_name None = None"
| "first_name (Some []) = None"
| "first_name (Some (x # xs)) = obj_name x"

text \<open>\<^verbatim>\<open>a || b\<close> on two string fields that may be missing.\<close>

fun field_or :: "string option \<Rightarrow> string option \<Rightarrow> string option" where
  "field_or None b = b"
| "field_or (Some s) b = (if s = [] then b else Some s)"

definition extractLocation :: "rw_fields \<Rightarrow> string" where
  "extractLocation flds =
     str_or (case f_primary_country flds of None \<Rightarrow> None | Some c \<Rightarrow> obj_name c)
       (str_or (first_name (f_country flds))
          (str_or (first_name (f_location flds)) ''India''))"

definition extractDisasterType :: "rw_fields \<Rightarrow> string" where
  "extractDisasterType flds =
     str_or (first_name (f_disaster_type flds))
       (str_or (first_name (f_theme flds)) ''General Alert'')"

definition high_keywords :: "string list" where
  "high_keywords =
     [''urgent'', ''emergency'', ''critical'', ''severe'', ''major'', ''catastrophic'', ''deadly'']"

definition high_types :: "string list" where
  "high_types = [''earthquake'', ''cyclone'', ''flood'', ''tsunami'']"

definition medium_types :: "string list" where
  "medium_types = [''storm'', ''landslide'', ''wildfire'']"

definition calculateSeverity :: "rw_fields \<Rightarrow> string" where
  "calculateSeverity flds =
     (let title = toLowerCase (str_or (f_title flds) []);
          body = toLowerCase (str_or (f_body flds) []);
          content = title @ '' '' @ body
      in if match_i high_keywords content then ''high''
         else
           let disasterType = toLowerCase (extractDisasterType flds)
           in if match_i high_types disasterType then ''high''
              else if match_i medium_types disasterType then ''medium''
              else ''low'')"

definition reliefweb_event :: "(string \<Rightarrow> int option) \<Rightarrow> rw_item \<Rightarrow> error + DisasterEvent" where
  "reliefweb_event parse item =
     (case item_fields item of
        None \<Rightarrow> Inl TypeError
      | Some flds \<Rightarrow>
          Inr \<lparr> ev_id = of_field (item_id item),
                title = JStr (str_or (f_title flds) ''Disaster Report''),
                description =
                  str_or (map_option trim (f_body flds))
                    (str_or (case f_headline flds of None \<Rightarrow> None | Some h \<Rightarrow> summary h)
                       ''View full report for details''),
                date =
                  new_Date parse
                    (case f_date flds of
                       None \<Rightarrow> None
                     | Some d \<Rightarrow> json_or (created d) (original d)),
                location = extractLocation flds,
                disasterType = JStr (extractDisasterType flds),
                severity = JStr (calculateSeverity flds),
                source = str_or (first_name (f_source flds)) ''ReliefWeb'',
                url = str_or (f_url flds) (str_or (f_url_alias flds) ''#''),
                country = ''India'' \<rparr>)"

definition parseReliefWebData :: "(string \<Rightarrow> int option) \<Rightarrow> rw_item list \<Rightarrow> error + DisasterEvent list" where
  "parseReliefWebData parse data = map_result (reliefweb_event parse) data"

text \<open>The body of the \<^verbatim>\<open>try\<close> block of \<^verbatim>\<open>fetchFromReliefWeb\<close>, given what \<^verbatim>\<open>fetch\<close> produced.\<close>

definition reliefweb_attempt ::
  "(string \<Rightarrow> int option) \<Rightarrow> rw_json response \<Rightarrow> error + DisasterEvent list" where
  "reliefweb_attempt parse resp =
     (case resp of
        Rejected \<Rightarrow> Inl FetchRejected
      | Response ok status body \<Rightarrow>
          if \<not> ok then Inl (ReliefWebStatus status)
          else
            (case body of
               None \<Rightarrow> Inl JsonRejected
             | Some json \<Rightarrow>
                 (case rw_data json of
                    None \<Rightarrow> Inr []
                  | Some d \<Rightarrow> if length d > 0 then parseReliefWebData parse d else Inr [])))"

section \<open>GDACS adapter\<close>

record gdacs_properties =
  p_eventid :: "string option"
  p_name :: "string option"
  p_description :: "string option"
  p_eventtype :: "string option"
  p_country :: "string option"
  p_fromdate :: "json option"
  p_alertlevel :: "string option"
  p_url :: "string option"

record gdacs_feature =
  properties :: "gdacs_properties option"

record gdacs_json =
  features :: "gdacs_feature list option"

definition gdacs_event :: "(string \<Rightarrow> int option) \<Rightarrow> gdacs_feature \<Rightarrow> error + DisasterEvent" where
  "gdacs_event parse feature =
     (case properties feature of
        None \<Rightarrow> Inl TypeError
      | Some p \<Rightarrow>
          Inr \<lparr> ev_id = of_field (p_eventid p),
                title = JStr (str_or (p_name p) ''Disaster Alert''),
                description =
                  str_or (p_description p)
                    (template (p_eventtype p) @ '' event in '' @ template (p_country p)),
                date = new_Date parse (p_fromdate p),
                location = str_or (p_country p) ''India'',
                disasterType = mapGDACSEventType (of_field (p_eventtype p)),
                severity = mapGDACSAlertLevel (of_field (p_alertlevel p)),
                source = ''GDACS'',
                url = str_or (p_url p) ''#'',
                country = ''India'' \<rparr>)"

definition fetchFromGDACS ::
  "(string \<Rightarrow> int option) \<Rightarrow> gdacs_json response \<Rightarrow> error + DisasterEvent list" where
  "fetchFromGDACS parse resp =
     (case resp of
        Rejected \<Rightarrow> Inl FetchRejected
      | Response ok status body \<Rightarrow>
          if \<not> ok then Inl (ApiFailed ''GDACS API failed'')
          else
            (case body of
               None \<Rightarrow> Inl JsonRejected
             | Some data \<Rightarrow>
                 (case features data of
                    None \<Rightarrow> Inr []
                  | Some fs \<Rightarrow> if length fs = 0 then Inr [] else map_result (gdacs_event parse) fs)))"

section \<open>EONET adapter\<close>

text \<open>
  Coordinates are JSON numbers; they are modelled as rationals, on which the comparisons
  with the integer bounds of the box are exact.
\<close>

record eonet_geometry =
  coordinates :: "rat list option"
  g_date :: "json option"

record eonet_category =
  cat_title :: "string option"

record eonet_source =
  src_url :: "string option"

record eonet_event =
  e_id :: "string option"
  e_title :: "string option"
  e_description :: "string option"
  geometry :: "eonet_geometry list option"
  categories :: "eonet_category list option"
  e_link :: "string option"
  sources :: "eonet_source list option"

record eonet_json =
  events :: "eonet_event list option"

text \<open>\<^verbatim>\<open>coords[i]\<close>: \<^verbatim>\<open>undefined\<close> past the end of the array.\<close>

fun index :: "'a list \<Rightarrow> nat \<Rightarrow> 'a option" where
  "index [] i = None"
| "index (x # xs) 0 = Some x"
| "index (x # xs) (Suc i) = index xs i"

text \<open>\<^verbatim>\<open>x >= b\<close> and \<^verbatim>\<open>x <= b\<close>: false when \<open>x\<close> is \<^verbatim>\<open>undefined\<close>.\<close>

fun num_ge :: "rat option \<Rightarrow> rat \<Rightarrow> bool" where
  "num_ge None b = False"
| "num_ge (Some x) b = (x \<ge> b)"

fun num_le :: "rat option \<Rightarrow> rat \<Rightarrow> bool" where
  "num_le None b = False"
| "num_le (Some x) b = (x \<le> b)"

text \<open>The callback of \<^verbatim>\<open>data.events.filter\<close>.\<close>

definition in_india :: "eonet_event \<Rightarrow> error + bool" where
  "in_india event =
     (case geometry event of
        None \<Rightarrow> Inr False
      | Some [] \<Rightarrow> Inr False
      | Some (g # gs) \<Rightarrow>
          (case coordinates g of
             None \<Rightarrow> Inl TypeError
           | Some coords \<Rightarrow>
               Inr (num_ge (index coords 1) 8 \<and> num_le (index coords 1) 35 \<and>
                    num_ge (index coords 0) 68 \<and> num_le (index coords 0) 97)))"

text \<open>\<^verbatim>\<open>event.link || event.sources[0]?.url || '#'\<close>: the sources are read only when the
  link is falsy, and reading them throws when the event has none.\<close>

definition eonet_url :: "eonet_event \<Rightarrow> error + string" where
  "eonet_url event =
     (case field_or (e_link event) None of
        Some link \<Rightarrow> Inr link
      | None \<Rightarrow>
          (case sources event of
             None \<Rightarrow> Inl TypeError
           | Some [] \<Rightarrow> Inr ''#''
           | Some (s # ss) \<Rightarrow> Inr (str_or (src_url s) ''#'')))"

text \<open>The callback of \<^verbatim>\<open>indiaEvents.map\<close>.\<close>

definition eonet_to_event :: "(string \<Rightarrow> int option) \<Rightarrow> eonet_event \<Rightarrow> error + DisasterEvent" where
  "eonet_to_event parse event =
     (case categories event of
        None \<Rightarrow> Inl TypeError
      | Some [] \<Rightarrow> Inl TypeError
      | Some (c # cs) \<Rightarrow>
          (case geometry event of
             None \<Rightarrow> Inl TypeError
           | Some [] \<Rightarrow> Inl TypeError
           | Some (g # gs) \<Rightarrow>
               (case eonet_url event of
                  Inl e \<Rightarrow> Inl e
                | Inr u \<Rightarrow>
                    Inr \<lparr> ev_id = of_field (e_id event),
                          title = of_field (e_title event),
                          description =
                            str_or (e_description event) (template (cat_title c) @ '' event detected''),
                          date = new_Date parse (g_date g),
                          location = ''India Region'',
                          disasterType = of_field (cat_title c),
                          severity = JStr ''medium'',
                          source = ''NASA EONET'',
                          url = u,
                          country = ''India'' \<rparr>)))"

definition fetchFromEONET ::
  "(string \<Rightarrow> int option) \<Rightarrow> eonet_json response \<Rightarrow> error + DisasterEvent list" where
  "fetchFromEONET parse resp =
     (case resp of
        Rejected \<Rightarrow> Inl FetchRejected
      | Response ok status body \<Rightarrow>
          if \<not> ok then Inl (ApiFailed ''EONET API failed'')
          else
            (case body of
               None \<Rightarrow> Inl JsonRejected
             | Some data \<Rightarrow>
                 (case events data of
                    None \<Rightarrow> Inr []
                  | Some evs \<Rightarrow>
                      if length evs = 0 then Inr []
                      else
                        (case filter_result in_india evs of
                           Inl e \<Rightarrow> Inl e
                         | Inr indiaEvents \<Rightarrow> map_result (eonet_to_event parse) indiaEvents))))"

section \<open>The feed: cache, clock and fallback chain\<close>

text \<open>
  One run of the feed sees a fixed world: what each endpoint answers when it is fetched,
  what \<^verbatim>\<open>Date.now()\<close> returns at its successive readings, and what \<^verbatim>\<open>Date.parse\<close> makes
  of a text.
\<close>

record world =
  reliefweb :: "rw_json response"
  gdacs :: "gdacs_json response"
  eonet :: "eonet_json response"
  clock :: "nat \<Rightarrow> int"
  date_parse :: "string \<Rightarrow> int option"

datatype endpoint = ReliefWeb | GDACS | EONET

text \<open>
  The state of the object and of its surroundings: the two cache fields (\<open>None\<close> is
  \<^verbatim>\<open>null\<close>), whether \<^verbatim>\<open>this.container\<close> is an element of the page (\<^verbatim>\<open>getElementById\<close> gave
  \<^verbatim>\<open>null\<close> otherwise), the number of readings of the clock so far, and the log of the
  endpoints fetched so far.  What is written to the page and to the console is left out;
  whether the write to the page throws is not.
\<close>

record feed =
  cache_data :: "DisasterEvent list option"
  cache_timestamp :: "int option"
  container :: bool
  reads :: nat
  fetched :: "endpoint list"

text \<open>
  \<^verbatim>\<open>showLoading\<close> and \<^verbatim>\<open>showError\<close> assign \<^verbatim>\<open>this.container.innerHTML\<close>, which throws a
  \<^verbatim>\<open>TypeError\<close> when the container is \<^verbatim>\<open>null\<close>.
\<close>

definition showLoading :: "feed \<Rightarrow> error + unit" where
  "showLoading s = (if container s then Inr () else Inl TypeError)"

definition showError :: "feed \<Rightarrow> error + unit" where
  "showError s = (if container s then Inr () else Inl TypeError)"

definition duration :: int where
  "duration = 5 * 60 * 1000"

text \<open>\<^verbatim>\<open>Date.now()\<close>: the next reading of the clock.\<close>

definition Date_now :: "world \<Rightarrow> feed \<Rightarrow> int \<times> feed" where
  "Date_now w s = (clock w (reads s), s\<lparr>reads := Suc (reads s)\<rparr>)"

text \<open>\<^verbatim>\<open>fetch(url)\<close> leaves its trace in the log.\<close>

definition fetch_log :: "endpoint \<Rightarrow> feed \<Rightarrow> feed" where
  "fetch_log ep s = s\<lparr>fetched := fetched s @ [ep]\<rparr>"

text \<open>
  \<^verbatim>\<open>!this.cache.data || !this.cache.timestamp\<close>: an array is truthy, \<^verbatim>\<open>null\<close> is not, and a
  number is truthy unless it is 0.
\<close>

definition isCacheValid :: "world \<Rightarrow> feed \<Rightarrow> bool \<times> feed" where
  "isCacheValid w s =
     (case (cache_data s, cache_timestamp s) of
        (Some d, Some t) \<Rightarrow>
          if t = 0 then (False, s)
          else (case Date_now w s of (now, s') \<Rightarrow> (now - t < duration, s'))
      | _ \<Rightarrow> (False, s))"

definition day :: int where
  "day = 24 * 60 * 60 * 1000"

definition getSampleData :: "world \<Rightarrow> feed \<Rightarrow> DisasterEvent list \<times> feed" where
  "getSampleData w s =
     (case Date_now w s of (t1, s1) \<Rightarrow>
      case Date_now w s1 of (t2, s2) \<Rightarrow>
      case Date_now w s2 of (t3, s3) \<Rightarrow>
      case Date_now w s3 of (t4, s4) \<Rightarrow>
        ([\<lparr> ev_id = JStr ''sample-1'',
             title = JStr ''Flood Alert in Kerala - Monsoon Impact'',
             description = ''Heavy rainfall has caused flooding in several districts of Kerala. Emergency services are responding to rescue operations. Volunteers needed for relief distribution.'',
             date = Some (t1 - 2 * day),
             location = ''Kerala, India'',
             disasterType = JStr ''Flood'',
             severity = JStr ''high'',
             source = ''Sample Data'',
             url = ''#'',
             country = ''India'' \<rparr>,
          \<lparr> ev_id = JStr ''sample-2'',
             title = JStr ''Earthquake Monitoring - Himalayan Region'',
             description = ''Seismic activity detected in the Himalayan region. No major damage reported. Authorities monitoring the situation.'',
             date = Some (t2 - 5 * day),
             location = ''Uttarakhand, India'',
             disasterType = JStr ''Earthquake'',
             severity = JStr ''medium'',
             source = ''Sample Data'',
             url = ''#'',
             country = ''India'' \<rparr>,
          \<lparr> ev_id = JStr ''sample-3'',
             title = JStr ''Heatwave Advisory - North India'',
             description = ''Extreme temperatures expected across North Indian states. Health advisory issued for vulnerable populations. Stay hydrated and avoid outdoor activities during peak hours.'',
             date = Some (t3 - 1 * day),
             location = ''Delhi, Rajasthan, UP'',
             disasterType = JStr ''Extreme Temperature'',
             severity = JStr ''medium'',
             source = ''Sample Data'',
             url = ''#'',
             country = ''India'' \<rparr>,
          \<lparr> ev_id = JStr ''sample-4'',
             title = JStr ''Cyclone Watch - Bay of Bengal'',
             description = ''Low pressure system developing over Bay of Bengal. Coastal areas advised to stay alert. Fishermen warned not to venture into sea.'',
             date = Some (t4 - 3 * day),
             location = ''Odisha, West Bengal'',
             disasterType = JStr ''Cyclone'',
             severity = JStr ''high'',
             source = ''Sample Data'',
             url = ''#'',
             country = ''India'' \<rparr>],
         s4))"

text \<open>
  The result of an \<^verbatim>\<open>async\<close> method is the error it rejects with (\<open>Inl\<close>) or the value
  it returns (\<open>Inr\<close>), together with the state it leaves.

  \<open>returned\<close> is what a block
  \<^verbatim>\<open>try { const d = await adapter(); if (d.length > 0) return d; } catch { }\<close>
  returns, if it returns: an error and an empty list both fall through.
\<close>

definition returned :: "error + 'a list \<Rightarrow> 'a list option" where
  "returned r = (case r of Inl e \<Rightarrow> None | Inr d \<Rightarrow> if length d > 0 then Some d else None)"

definition fetchFromAlternativeSources ::
  "world \<Rightarrow> feed \<Rightarrow> (error + DisasterEvent list) \<times> feed" where
  "fetchFromAlternativeSources w s =
     (let s1 = fetch_log GDACS s
      in case returned (fetchFromGDACS (date_parse w) (gdacs w)) of
           Some gdacsData \<Rightarrow> (Inr gdacsData, s1)
         | None \<Rightarrow>
             (let s2 = fetch_log EONET s1
              in case returned (fetchFromEONET (date_parse w) (eonet w)) of
                   Some eonetData \<Rightarrow> (Inr eonetData, s2)
                 | None \<Rightarrow> (case getSampleData w s2 of (d, s3) \<Rightarrow> (Inr d, s3))))"

definition fetchFromReliefWeb ::
  "world \<Rightarrow> feed \<Rightarrow> (error + DisasterEvent list) \<times> feed" where
  "fetchFromReliefWeb w s =
     (let s1 = fetch_log ReliefWeb s
      in case reliefweb_attempt (date_parse w) (reliefweb w) of
           Inr d \<Rightarrow> (Inr d, s1)
         | Inl e \<Rightarrow> fetchFromAlternativeSources w s1)"

text \<open>
  \<^verbatim>\<open>fetchDisasterData\<close>, with the method it awaits in its \<^verbatim>\<open>try\<close> block
  (\<^verbatim>\<open>this.fetchFromReliefWeb\<close>) as a parameter.  \<^verbatim>\<open>showLoading\<close> is called before the
  \<^verbatim>\<open>try\<close> block, so what it throws leaves the method; \<^verbatim>\<open>showError\<close> is called inside the
  \<^verbatim>\<open>catch\<close> block, so what it throws leaves the method too.
\<close>

definition fetchDisasterData_using ::
  "(world \<Rightarrow> feed \<Rightarrow> (error + DisasterEvent list) \<times> feed) \<Rightarrow>
   world \<Rightarrow> feed \<Rightarrow> (error + DisasterEvent list option) \<times> feed" where
  "fetchDisasterData_using primary w s =
     (case isCacheValid w s of
        (True, s1) \<Rightarrow> (Inr (cache_data s1), s1)
      | (False, s1) \<Rightarrow>
          (case showLoading s1 of
             Inl thrown \<Rightarrow> (Inl thrown, s1)
           | Inr u \<Rightarrow>
               (case primary w s1 of
                  (Inr d, s2) \<Rightarrow>
                    (case Date_now w s2 of
                       (now, s3) \<Rightarrow>
                         (Inr (Some d), s3\<lparr>cache_data := Some d, cache_timestamp := Some now\<rparr>))
                | (Inl e, s2) \<Rightarrow>
                    (case showError s2 of
                       Inl thrown \<Rightarrow> (Inl thrown, s2)
                     | Inr u \<Rightarrow> (Inr (Some []), s2)))))"

definition fetchDisasterData ::
  "world \<Rightarrow> feed \<Rightarrow> (error + DisasterEvent list option) \<times> feed" where
  "fetchDisasterData w s = fetchDisasterData_using fetchFromReliefWeb w s"

definition clearCache :: "feed \<Rightarrow> feed" where
  "clearCache s = s\<lparr>cache_data := None, cache_timestamp := None\<rparr>"

section \<open>Ranking before display\<close>

text \<open>The comparator that \<^verbatim>\<open>render\<close> passes to \<^verbatim>\<open>disasters.sort\<close>; \<open>None\<close> is \<^verbatim>\<open>NaN\<close>.\<close>

definition severityOrder :: "(string \<times> int) list" where
  "severityOrder = [(''high'', 0), (''medium'', 1), (''low'', 2)]"

fun minus_property :: "int property \<Rightarrow> int property \<Rightarrow> int option" where
  "minus_property (Own x) (Own y) = Some (x - y)"
| "minus_property a b = None"

fun minus_date :: "int option \<Rightarrow> int option \<Rightarrow> int option" where
  "minus_date (Some x) (Some y) = Some (x - y)"
| "minus_date a b = None"

definition compare_events :: "DisasterEvent \<Rightarrow> DisasterEvent \<Rightarrow> int option" where
  "compare_events a b =
     (if get_property severityOrder (severity a) \<noteq> get_property severityOrder (severity b)
      then minus_property (get_property severityOrder (severity a))
             (get_property severityOrder (severity b))
      else minus_date (date b) (date a))"

text \<open>
  \<^verbatim>\<open>Array.prototype.sort\<close> fixes its result only for a comparator that is a consistent
  comparison function for the elements of the array: it never returns \<^verbatim>\<open>NaN\<close>, every
  element compares equal to itself, comparing equal is symmetric and transitive, and so
  are comparing less and comparing greater.
\<close>

definition eqCF :: "('a \<Rightarrow> 'a \<Rightarrow> int option) \<Rightarrow> 'a \<Rightarrow> 'a \<Rightarrow> bool" where
  "eqCF cmp a b = (case cmp a b of None \<Rightarrow> False | Some v \<Rightarrow> v = 0)"

definition ltCF :: "('a \<Rightarrow> 'a \<Rightarrow> int option) \<Rightarrow> 'a \<Rightarrow> 'a \<Rightarrow> bool" where
  "ltCF cmp a b = (case cmp a b of None \<Rightarrow> False | Some v \<Rightarrow> v < 0)"

definition gtCF :: "('a \<Rightarrow> 'a \<Rightarrow> int option) \<Rightarrow> 'a \<Rightarrow> 'a \<Rightarrow> bool" where
  "gtCF cmp a b = (case cmp a b of None \<Rightarrow> False | Some v \<Rightarrow> v > 0)"

definition consistent_on :: "('a \<Rightarrow> 'a \<Rightarrow> int option) \<Rightarrow> 'a list \<Rightarrow> bool" where
  "consistent_on cmp xs =
     list_all (\<lambda>a. list_all (\<lambda>b. list_all (\<lambda>c.
       cmp a b \<noteq> None \<and> eqCF cmp a a \<and>
       (eqCF cmp a b \<longrightarrow> eqCF cmp b a) \<and>
       (eqCF cmp a b \<and> eqCF cmp b c \<longrightarrow> eqCF cmp a c) \<and>
       (ltCF cmp a b \<and> ltCF cmp b c \<longrightarrow> ltCF cmp a c) \<and>
       (gtCF cmp a b \<and> gtCF cmp b c \<longrightarrow> gtCF cmp a c)) xs) xs) xs"

text \<open>
  For such a comparator the sort is stable and its result is the one arrangement in
  ascending order that keeps elements comparing equal in their order; a stable insertion
  computes it.
\<close>

fun insert_sorted :: "('a \<Rightarrow> 'a \<Rightarrow> int option) \<Rightarrow> 'a \<Rightarrow> 'a list \<Rightarrow> 'a list" where
  "insert_sorted cmp x [] = [x]"
| "insert_sorted cmp x (y # ys) =
     (if (case cmp x y of None \<Rightarrow> 0 | Some v \<Rightarrow> v) \<le> 0 then x # y # ys
      else y # insert_sorted cmp x ys)"

definition stable_insertion :: "('a \<Rightarrow> 'a \<Rightarrow> int option) \<Rightarrow> 'a list \<Rightarrow> 'a list" where
  "stable_insertion cmp xs = foldr (insert_sorted cmp) xs []"

text \<open>
  \<open>array_sort cmp xs ys\<close>: the call \<^verbatim>\<open>xs.sort(cmp)\<close> may leave the array as \<open>ys\<close>.  For a
  comparator that is not consistent on the array the language leaves the order to the
  implementation: every arrangement of the elements may result, and engines differ.
\<close>

definition array_sort :: "('a \<Rightarrow> 'a \<Rightarrow> int option) \<Rightarrow> 'a list \<Rightarrow> 'a list \<Rightarrow> bool" where
  "array_sort cmp xs ys =
     (if consistent_on cmp xs then ys = stable_insertion cmp xs else mset ys = mset xs)"

definition sort_disasters :: "DisasterEvent list \<Rightarrow> DisasterEvent list \<Rightarrow> bool" where
  "sort_disasters disasters ranked = array_sort compare_events disasters ranked"

section \<open>Notions the specification uses\<close>

text \<open>The word \<open>w\<close> (written in lower case) occurs in \<open>s\<close>, letters compared without regard to case.\<close>

definition occurs_in :: "string \<Rightarrow> string \<Rightarrow> bool" where
  "occurs_in w s = (\<exists>p q. toLowerCase s = p @ w @ q)"

definition mentions :: "string list \<Rightarrow> string \<Rightarrow> bool" where
  "mentions ws s = (\<exists>w. w \<in> set ws \<and> occurs_in w s)"

text \<open>An outcome that sends the fallback chain on: an error or an empty list.\<close>

definition fails_or_empty :: "error + 'a list \<Rightarrow> bool" where
  "fails_or_empty r = (case r of Inl e \<Rightarrow> True | Inr d \<Rightarrow> d = [])"

text \<open>
  The first geometry of an event gives a longitude and a latitude inside the box
  latitude 8 to 35, longitude 68 to 97 (bounds included).
\<close>

definition first_coordinate_in_box :: "eonet_event \<Rightarrow> bool" where
  "first_coordinate_in_box ev =
     (case geometry ev of
        Some (g # gs) \<Rightarrow>
          (case coordinates g of
             Some (lon # lat # rest) \<Rightarrow> 8 \<le> lat \<and> lat \<le> 35 \<and> 68 \<le> lon \<and> lon \<le> 97
           | _ \<Rightarrow> False)
      | _ \<Rightarrow> False)"

definition valid_severity :: "jsval \<Rightarrow> bool" where
  "valid_severity v = (v = JStr ''high'' \<or> v = JStr ''medium'' \<or> v = JStr ''low'')"

text \<open>The order the ranking is meant to produce: high before medium before low, and among
  events of one severity the later date first.\<close>

definition severity_rank :: "jsval \<Rightarrow> nat" where
  "severity_rank v = (if v = JStr ''high'' then 0 else if v = JStr ''medium'' then 1 else 2)"

definition ranked_before :: "DisasterEvent \<Rightarrow> DisasterEvent \<Rightarrow> bool" where
  "ranked_before a b =
     (severity_rank (severity a) < severity_rank (severity b) \<or>
      (severity_rank (severity a) = severity_rank (severity b) \<and>
       (case (date a, date b) of (Some x, Some y) \<Rightarrow> y \<le> x | _ \<Rightarrow> False)))"

text \<open>An event that carries one of the three severities and a valid date.\<close>

definition well_formed :: "DisasterEvent \<Rightarrow> bool" where
  "well_formed e = (valid_severity (severity e) \<and> date e \<noteq> None)"

section \<open>Inputs used in examples\<close>

definition no_fields :: rw_fields where
  "no_fields =
     \<lparr> f_title = None, f_body = None, f_headline = None, f_date = None,
       f_primary_country = None, f_country = None, f_location = None,
       f_disaster_type = None, f_theme = None, f_source = None,
       f_url = None, f_url_alias = None \<rparr>"

text \<open>A report whose title ends and whose body starts inside a keyword.\<close>

definition split_keyword :: rw_fields where
  "split_keyword = no_fields\<lparr>f_title := Some ''UR'', f_body := Some ''GENT''\<rparr>"

text \<open>A report with a keyword in its title and no disaster type or theme.\<close>

definition urgent_report :: rw_fields where
  "urgent_report = no_fields\<lparr>f_title := Some ''URGENT: situation report''\<rparr>"

text \<open>One record of each provider, and responses that carry them.\<close>

definition flood_item :: rw_item where
  "flood_item =
     \<lparr> item_id = Some ''4100001'',
       item_fields = Some (no_fields
         \<lparr> f_title := Some ''India: Floods in Assam'',
           f_date := Some \<lparr> created = Some (JsonString ''2024-07-01T10:00:00+00:00''), original = None \<rparr>,
           f_disaster_type := Some [\<lparr> obj_name = Some ''Flood'' \<rparr>] \<rparr>) \<rparr>"


definition cyclone_feature :: gdacs_feature where
  "cyclone_feature =
     \<lparr> properties = Some
         \<lparr> p_eventid = Some ''1001'', p_name = Some ''Tropical Cyclone REMAL'',
           p_description = None, p_eventtype = Some ''TC'', p_country = Some ''India'',
           p_fromdate = Some (JsonString ''2024-05-25T00:00:00''), p_alertlevel = Some ''Red'',
           p_url = None \<rparr> \<rparr>"

definition fire_event :: "rat \<Rightarrow> rat \<Rightarrow> eonet_event" where
  "fire_event lon lat =
     \<lparr> e_id = Some ''EONET_1'', e_title = Some ''Wildfire'', e_description = None,
       geometry = Some [\<lparr> coordinates = Some [lon, lat], g_date = Some (JsonString ''2024-04-01T00:00:00Z'') \<rparr>],
       categories = Some [\<lparr> cat_title = Some ''Wildfires'' \<rparr>],
       e_link = Some ''https://eonet.gsfc.nasa.gov/api/v3/events/EONET_1'',
       sources = Some [] \<rparr>"

definition rw_ok :: "rw_item list \<Rightarrow> rw_json response" where
  "rw_ok items = Response True 200 (Some \<lparr> rw_data = Some items \<rparr>)"

definition gdacs_ok :: "gdacs_feature list \<Rightarrow> gdacs_json response" where
  "gdacs_ok fs = Response True 200 (Some \<lparr> features = Some fs \<rparr>)"

definition eonet_ok :: "eonet_event list \<Rightarrow> eonet_json response" where
  "eonet_ok evs = Response True 200 (Some \<lparr> events = Some evs \<rparr>)"

text \<open>
  A world in which every request is rejected; the clock advances one second per reading
  and every non-empty date text parses.
\<close>

definition offline :: world where
  "offline =
     \<lparr> reliefweb = Rejected, gdacs = Rejected, eonet = Rejected,
       clock = (\<lambda>n. 1700000000000 + 1000 * int n),
       date_parse = (\<lambda>s. if s = [] then None else Some 1600000000000) \<rparr>"

definition empty_feed :: feed where
  "empty_feed =
     \<lparr> cache_data = None, cache_timestamp = None, container = True, reads = 0, fetched = [] \<rparr>"

text \<open>Worlds in which one provider answers.\<close>

definition world_reliefweb_up :: world where
  "world_reliefweb_up = offline\<lparr>reliefweb := rw_ok [flood_item]\<rparr>"

definition world_gdacs_up :: world where
  "world_gdacs_up = offline\<lparr>gdacs := gdacs_ok [cyclone_feature]\<rparr>"

definition world_eonet_up :: world where
  "world_eonet_up = offline\<lparr>gdacs := gdacs_ok [], eonet := eonet_ok [fire_event 80 20]\<rparr>"

text \<open>ReliefWeb answers with no report while GDACS has an alert.\<close>

definition world_reliefweb_quiet :: world where
  "world_reliefweb_quiet = offline\<lparr>reliefweb := rw_ok [], gdacs := gdacs_ok [cyclone_feature]\<rparr>"

text \<open>ReliefWeb answers with no report and the other providers are unreachable.\<close>

definition world_only_reliefweb_quiet :: world where
  "world_only_reliefweb_quiet = offline\<lparr>reliefweb := rw_ok []\<rparr>"

text \<open>A feed whose cache was filled long before the clock of \<open>offline\<close> starts.\<close>

definition stale_feed :: feed where
  "stale_feed =
     \<lparr> cache_data = Some (fst (getSampleData offline empty_feed)),
       cache_timestamp = Some 1600000000000, container = True, reads = 0, fetched = [] \<rparr>"

text \<open>A stand-in for \<^verbatim>\<open>this.fetchFromReliefWeb\<close> that fetches and then rejects.\<close>

definition rejecting_primary :: "world \<Rightarrow> feed \<Rightarrow> (error + DisasterEvent list) \<times> feed" where
  "rejecting_primary w s = (Inl FetchRejected, fetch_log ReliefWeb s)"


text \<open>An event of which only severity and date matter.\<close>

definition bare_event :: "string \<Rightarrow> int option \<Rightarrow> DisasterEvent" where
  "bare_event sev t =
     \<lparr> ev_id = JUndefined, title = JUndefined, description = [], date = t,
       location = [], disasterType = JUndefined, severity = JStr sev,
       source = [], url = [], country = [] \<rparr>"

text \<open>A clock that starts at the epoch: its first reading is 0, the next ones a second apart.\<close>

definition epoch_clock :: "nat \<Rightarrow> int" where
  "epoch_clock n = 1000 * int n"

text \<open>The feed after a first load at the epoch, in a world where ReliefWeb answers.\<close>

definition feed_put_at_epoch :: feed where
  "feed_put_at_epoch =
     snd (fetchDisasterData (world_reliefweb_up\<lparr>clock := epoch_clock\<rparr>) empty_feed)"

chapter \<open>Verified properties\<close>

section \<open>Lookup tables of the GDACS adapter\<close>

lemma mapGDACSEventType_table:
  "map (\<lambda>c. mapGDACSEventType (JStr c)) [''EQ'', ''TC'', ''FL'', ''DR'', ''VO'', ''WF'']
     = map JStr [''Earthquake'', ''Tropical Cyclone'', ''Flood'', ''Drought'', ''Volcano'', ''Wildfire'']"
  by (simp add: mapGDACSEventType_def get_property_def gdacs_event_types_def js_or_def)

lemma mapGDACSEventType_unknown:
  "map_of gdacs_event_types c = None \<Longrightarrow> c \<notin> set object_prototype_keys \<Longrightarrow>
     mapGDACSEventType (JStr c) = JStr c"
  by (simp add: mapGDACSEventType_def get_property_def js_or_def)

lemma mapGDACSAlertLevel_table:
  "map (\<lambda>c. mapGDACSAlertLevel (JStr c)) [''Red'', ''Orange'', ''Green'']
     = map JStr [''high'', ''medium'', ''low'']"
  by (simp add: mapGDACSAlertLevel_def get_property_def gdacs_alert_levels_def js_or_def)

lemma mapGDACSAlertLevel_unknown:
  "map_of gdacs_alert_levels c = None \<Longrightarrow> c \<notin> set object_prototype_keys \<Longrightarrow>
     mapGDACSAlertLevel (JStr c) = JStr ''low''"
  by (simp add: mapGDACSAlertLevel_def get_property_def js_or_def)



text \<open>
  Claim C6.  The table maps the six event-type codes and the three alert levels as the
  specification lists them, and a code such as \<^verbatim>\<open>XX\<close> or a level such as \<^verbatim>\<open>Purple\<close>
  falls back as stated.  But \<^verbatim>\<open>mapping[type] || type\<close> also finds what the object literal
  inherits: for the code \<^verbatim>\<open>constructor\<close>, which is not in the table, the result is the
  inherited function and not the code itself, and for the alert level \<^verbatim>\<open>constructor\<close>
  the result is that function and not \<^verbatim>\<open>low\<close>.
\<close>

theorem gdacs_inherited_member_returned:
  "mapGDACSEventType (JStr ''XX'') = JStr ''XX'' \<and>
   mapGDACSEventType (JStr ''constructor'') = JProto ''constructor'' \<and>
   mapGDACSAlertLevel (JStr ''Purple'') = JStr ''low'' \<and>
   mapGDACSAlertLevel (JStr ''constructor'') = JProto ''constructor''"
  by (simp add: mapGDACSEventType_def mapGDACSAlertLevel_def get_property_def
      gdacs_event_types_def gdacs_alert_levels_def object_prototype_keys_def js_or_def)

section \<open>Severity of a ReliefWeb report\<close>

lemma starts_with_iff: "starts_with s k \<longleftrightarrow> (\<exists>q. s = k @ q)"
  by (induction s k rule: starts_with.induct) auto

lemma contains_iff: "contains s k \<longleftrightarrow> (\<exists>p q. s = p @ k @ q)"
proof (induction s)
  case Nil
  then show ?case by (simp add: starts_with_iff)
next
  case (Cons c cs)
  show ?case
  proof
    assume "contains (c # cs) k"
    then consider "starts_with (c # cs) k" | "contains cs k" by auto
    then show "\<exists>p q. c # cs = p @ k @ q"
    proof cases
      case 1
      then obtain q where "c # cs = k @ q" by (auto simp: starts_with_iff)
      then have "c # cs = [] @ k @ q" by simp
      then show ?thesis by blast
    next
      case 2
      then obtain p q where "cs = p @ k @ q" using Cons.IH by auto
      then have "c # cs = (c # p) @ k @ q" by simp
      then show ?thesis by blast
    qed
  next
    assume "\<exists>p q. c # cs = p @ k @ q"
    then obtain p q where pq: "c # cs = p @ k @ q" by blast
    show "contains (c # cs) k"
    proof (cases p)
      case Nil
      with pq have "starts_with (c # cs) k" by (simp add: starts_with_iff)
      then show ?thesis by simp
    next
      case (Cons a p')
      with pq have "cs = p' @ k @ q" by simp
      then show ?thesis using Cons.IH by auto
    qed
  qed
qed

lemma starts_with_sep:
  "sp \<notin> set k \<Longrightarrow> starts_with (a @ sp # b) k = starts_with a k"
proof (induction a arbitrary: k)
  case Nil
  then show ?case by (cases k) auto
next
  case (Cons c a)
  then show ?case by (cases k) auto
qed

lemma contains_sep:
  "sp \<notin> set k \<Longrightarrow> k \<noteq> [] \<Longrightarrow> contains (a @ sp # b) k = (contains a k \<or> contains b k)"
proof (induction a)
  case Nil
  then show ?case by (cases k) auto
next
  case (Cons c a)
  then show ?case using starts_with_sep [of sp k "c # a" b] by auto
qed

lemma lower_char_idem: "lower_char (lower_char c) = lower_char c"
  unfolding lower_char_def by (simp split: option.splits if_splits)

lemma toLowerCase_idem: "toLowerCase (toLowerCase s) = toLowerCase s"
  by (simp add: toLowerCase_def lower_char_idem)

lemma toLowerCase_append: "toLowerCase (a @ b) = toLowerCase a @ toLowerCase b"
  by (simp add: toLowerCase_def)

lemma match_i_mentions:
  assumes "\<And>w. w \<in> set ws \<Longrightarrow> toLowerCase w = w"
  shows "match_i ws s = mentions ws s"
  using assms by (auto simp add: match_i_def mentions_def occurs_in_def list_ex_iff contains_iff)

lemma mentions_joined:
  assumes "\<And>w. w \<in> set ws \<Longrightarrow> CHR '' '' \<notin> set w \<and> w \<noteq> []"
  shows "mentions ws (toLowerCase a @ '' '' @ toLowerCase b) = (mentions ws a \<or> mentions ws b)"
proof -
  have "occurs_in w (toLowerCase a @ '' '' @ toLowerCase b) = (occurs_in w a \<or> occurs_in w b)"
    if "w \<in> set ws" for w
  proof -
    have low: "toLowerCase (toLowerCase a @ '' '' @ toLowerCase b) = toLowerCase a @ CHR '' '' # toLowerCase b"
      by (simp add: toLowerCase_append toLowerCase_idem) (simp add: toLowerCase_def lower_char_def)
    from assms [OF that] show ?thesis
      unfolding occurs_in_def low contains_iff [symmetric] by (simp add: contains_sep)
  qed
  then show ?thesis unfolding mentions_def by blast
qed

lemma high_keywords_lower: "w \<in> set high_keywords \<Longrightarrow> toLowerCase w = w"
  by (auto simp add: high_keywords_def toLowerCase_def lower_char_def)

lemma high_types_lower: "w \<in> set high_types \<Longrightarrow> toLowerCase w = w"
  by (auto simp add: high_types_def toLowerCase_def lower_char_def)

lemma medium_types_lower: "w \<in> set medium_types \<Longrightarrow> toLowerCase w = w"
  by (auto simp add: medium_types_def toLowerCase_def lower_char_def)

lemma high_keywords_plain: "w \<in> set high_keywords \<Longrightarrow> CHR '' '' \<notin> set w \<and> w \<noteq> []"
  by (auto simp add: high_keywords_def)

lemma mentions_toLowerCase: "mentions ws (toLowerCase s) = mentions ws s"
  by (simp add: mentions_def occurs_in_def toLowerCase_idem)

text \<open>
  Claim C3, as the code has it.  \<^verbatim>\<open>calculateSeverity\<close> joins the lower-cased title and body
  with a single space before it looks for a keyword, so a keyword counts when it occurs in
  the title or in the body, each taken alone:
  if the title or the body mentions one of urgent, emergency, critical, severe, major,
  catastrophic, deadly (in any case) the severity is high; otherwise if the derived
  disaster type mentions earthquake, cyclone, flood or tsunami it is high; otherwise if it
  mentions storm, landslide or wildfire it is medium; otherwise it is low.  In particular
  a title or body containing \<^verbatim>\<open>URGENT\<close> in any case yields high whatever the disaster type.
\<close>

theorem severity_rule:
  "calculateSeverity flds =
     (if mentions high_keywords (str_or (f_title flds) []) \<or>
         mentions high_keywords (str_or (f_body flds) []) then ''high''
      else if mentions high_types (extractDisasterType flds) then ''high''
      else if mentions medium_types (extractDisasterType flds) then ''medium''
      else ''low'')
   \<and> (occurs_in ''urgent'' (str_or (f_title flds) []) \<or>
      occurs_in ''urgent'' (str_or (f_body flds) []) \<longrightarrow> calculateSeverity flds = ''high'')"
proof -
  have rule: "calculateSeverity flds =
     (if mentions high_keywords (str_or (f_title flds) []) \<or>
         mentions high_keywords (str_or (f_body flds) []) then ''high''
      else if mentions high_types (extractDisasterType flds) then ''high''
      else if mentions medium_types (extractDisasterType flds) then ''medium''
      else ''low'')"
    unfolding calculateSeverity_def Let_def
    by (simp only: match_i_mentions [OF high_keywords_lower] match_i_mentions [OF high_types_lower]
        match_i_mentions [OF medium_types_lower] mentions_joined [OF high_keywords_plain]
        mentions_toLowerCase)
  have "''urgent'' \<in> set high_keywords" by (simp add: high_keywords_def)
  then have "occurs_in ''urgent'' s \<Longrightarrow> mentions high_keywords s" for s
    unfolding mentions_def by blast
  with rule show ?thesis by auto
qed

text \<open>
  The title \<^verbatim>\<open>UR\<close> followed directly by the body \<^verbatim>\<open>GENT\<close> spells a keyword, and the
  pattern matches that text; the code puts a space between the two and finds nothing, so
  the report is low.
\<close>

theorem split_keyword_is_low:
  "f_title split_keyword = Some ''UR'' \<and> f_body split_keyword = Some ''GENT'' \<and>
   match_i high_keywords (''UR'' @ ''GENT'') \<and>
   calculateSeverity split_keyword = ''low''"
  by code_simp

text \<open>
  A report titled \<^verbatim>\<open>URGENT: situation report\<close> without disaster type or theme: its type
  \<^verbatim>\<open>General Alert\<close> alone would give low, the keyword makes it high.
\<close>

theorem severity_rule_witness:
  "occurs_in ''urgent'' ''URGENT: situation report'' \<and>
   \<not> mentions high_types (extractDisasterType urgent_report) \<and>
   \<not> mentions medium_types (extractDisasterType urgent_report) \<and>
   calculateSeverity urgent_report = ''high''"
proof -
  have o: "occurs_in ''urgent'' ''URGENT: situation report''"
    unfolding occurs_in_def contains_iff [symmetric] by code_simp
  have t: "extractDisasterType urgent_report = ''General Alert''"
    by (simp add: urgent_report_def no_fields_def extractDisasterType_def)
  have "\<not> match_i high_types ''General Alert''"
    by code_simp
  then have h: "\<not> mentions high_types ''General Alert''"
    by (simp add: match_i_mentions [OF high_types_lower])
  have "\<not> match_i medium_types ''General Alert''"
    by code_simp
  then have m: "\<not> mentions medium_types ''General Alert''"
    by (simp add: match_i_mentions [OF medium_types_lower])
  have "f_title urgent_report = Some ''URGENT: situation report''"
    by (simp add: urgent_report_def no_fields_def)
  with o have "calculateSeverity urgent_report = ''high''"
    using severity_rule [of urgent_report, THEN conjunct2] by simp
  with o t h m show ?thesis by simp
qed

section \<open>The fallback chain\<close>

lemma returned_None: "returned r = None \<longleftrightarrow> fails_or_empty r"
  by (simp add: returned_def fails_or_empty_def split: sum.splits)

lemma returned_Some: "returned r = Some d \<longleftrightarrow> r = Inr d \<and> d \<noteq> []"
  by (auto simp add: returned_def split: sum.splits)

lemma getSampleData_state: "snd (getSampleData w s) = s\<lparr>reads := reads s + 4\<rparr>"
  by (simp add: getSampleData_def Date_now_def)

lemma getSampleData_fetch_log: "fst (getSampleData w (fetch_log ep s)) = fst (getSampleData w s)"
  by (simp add: getSampleData_def Date_now_def fetch_log_def)

lemma alternatives_gdacs:
  assumes "fetchFromGDACS (date_parse w) (gdacs w) = Inr g" and "g \<noteq> []"
  shows "fetchFromAlternativeSources w s = (Inr g, s\<lparr>fetched := fetched s @ [GDACS]\<rparr>)"
proof -
  have "returned (fetchFromGDACS (date_parse w) (gdacs w)) = Some g"
    using assms by (simp add: returned_Some)
  then show ?thesis by (simp add: fetchFromAlternativeSources_def fetch_log_def)
qed

lemma alternatives_eonet:
  assumes "fails_or_empty (fetchFromGDACS (date_parse w) (gdacs w))"
    and "fetchFromEONET (date_parse w) (eonet w) = Inr n" and "n \<noteq> []"
  shows "fetchFromAlternativeSources w s = (Inr n, s\<lparr>fetched := fetched s @ [GDACS, EONET]\<rparr>)"
proof -
  have "returned (fetchFromGDACS (date_parse w) (gdacs w)) = None"
    using assms(1) by (simp add: returned_None)
  moreover have "returned (fetchFromEONET (date_parse w) (eonet w)) = Some n"
    using assms(2,3) by (simp add: returned_Some)
  ultimately show ?thesis by (simp add: fetchFromAlternativeSources_def fetch_log_def)
qed

lemma alternatives_sample:
  assumes "fails_or_empty (fetchFromGDACS (date_parse w) (gdacs w))"
    and "fails_or_empty (fetchFromEONET (date_parse w) (eonet w))"
  shows "fetchFromAlternativeSources w s =
           (Inr (fst (getSampleData w s)),
            s\<lparr>fetched := fetched s @ [GDACS, EONET], reads := reads s + 4\<rparr>)"
proof -
  have "returned (fetchFromGDACS (date_parse w) (gdacs w)) = None"
    using assms(1) by (simp add: returned_None)
  moreover have "returned (fetchFromEONET (date_parse w) (eonet w)) = None"
    using assms(2) by (simp add: returned_None)
  moreover have "getSampleData w (fetch_log EONET (fetch_log GDACS s)) =
      (fst (getSampleData w s), s\<lparr>fetched := fetched s @ [GDACS, EONET], reads := reads s + 4\<rparr>)"
    by (simp add: prod_eq_iff getSampleData_state getSampleData_fetch_log) (simp add: fetch_log_def)
  ultimately show ?thesis by (simp add: fetchFromAlternativeSources_def)
qed

lemma primary_returns:
  "reliefweb_attempt (date_parse w) (reliefweb w) = Inr d \<Longrightarrow>
     fetchFromReliefWeb w s = (Inr d, s\<lparr>fetched := fetched s @ [ReliefWeb]\<rparr>)"
  by (simp add: fetchFromReliefWeb_def fetch_log_def)

lemma primary_throws:
  "reliefweb_attempt (date_parse w) (reliefweb w) = Inl e \<Longrightarrow>
     fetchFromReliefWeb w s = fetchFromAlternativeSources w (fetch_log ReliefWeb s)"
  by (simp add: fetchFromReliefWeb_def)

lemma reliefweb_up_attempt:
  "\<exists>d. reliefweb_attempt (date_parse world_reliefweb_up) (reliefweb world_reliefweb_up) = Inr d \<and> d \<noteq> []"
  by (simp add: world_reliefweb_up_def offline_def rw_ok_def reliefweb_attempt_def
      parseReliefWebData_def reliefweb_event_def flood_item_def no_fields_def)

lemma rejected_attempt: "reliefweb_attempt p Rejected = Inl FetchRejected"
  by (simp add: reliefweb_attempt_def)

lemma rejected_gdacs: "fetchFromGDACS p Rejected = Inl FetchRejected"
  by (simp add: fetchFromGDACS_def)

lemma rejected_eonet: "fetchFromEONET p Rejected = Inl FetchRejected"
  by (simp add: fetchFromEONET_def)

lemma quiet_attempt: "reliefweb_attempt p (rw_ok []) = Inr []"
  by (simp add: reliefweb_attempt_def rw_ok_def)

lemma quiet_gdacs: "fetchFromGDACS p (gdacs_ok []) = Inr []"
  by (simp add: fetchFromGDACS_def gdacs_ok_def)

lemma cyclone_gdacs: "\<exists>g. fetchFromGDACS p (gdacs_ok [cyclone_feature]) = Inr g \<and> g \<noteq> []"
  by (simp add: fetchFromGDACS_def gdacs_ok_def gdacs_event_def cyclone_feature_def)

lemma fire_eonet: "\<exists>n. fetchFromEONET p (eonet_ok [fire_event 80 20]) = Inr n \<and> n \<noteq> []"
  by (simp add: fetchFromEONET_def eonet_ok_def in_india_def eonet_to_event_def eonet_url_def
      fire_event_def)

text \<open>
  Claim C1, as the code has it.  Every run fetches ReliefWeb first.  When the primary
  attempt returns a list, empty or not, that list is the result and no other source is
  fetched.  When it fails with an error, GDACS and then EONET are attempted in this order,
  the first non-empty list is returned, and no source after the one that delivered is
  fetched.  The log of fetched endpoints records the order.
\<close>

theorem fallback_order:
  "(reliefweb_attempt (date_parse w) (reliefweb w) = Inr d \<longrightarrow>
      fetchFromReliefWeb w s = (Inr d, s\<lparr>fetched := fetched s @ [ReliefWeb]\<rparr>))
   \<and> (reliefweb_attempt (date_parse w) (reliefweb w) = Inl e \<and>
      fetchFromGDACS (date_parse w) (gdacs w) = Inr g \<and> g \<noteq> [] \<longrightarrow>
      fetchFromReliefWeb w s = (Inr g, s\<lparr>fetched := fetched s @ [ReliefWeb, GDACS]\<rparr>))
   \<and> (reliefweb_attempt (date_parse w) (reliefweb w) = Inl e \<and>
      fails_or_empty (fetchFromGDACS (date_parse w) (gdacs w)) \<and>
      fetchFromEONET (date_parse w) (eonet w) = Inr n \<and> n \<noteq> [] \<longrightarrow>
      fetchFromReliefWeb w s = (Inr n, s\<lparr>fetched := fetched s @ [ReliefWeb, GDACS, EONET]\<rparr>))
   \<and> (reliefweb_attempt (date_parse w) (reliefweb w) = Inl e \<and>
      fails_or_empty (fetchFromGDACS (date_parse w) (gdacs w)) \<and>
      fails_or_empty (fetchFromEONET (date_parse w) (eonet w)) \<longrightarrow>
      fetched (snd (fetchFromReliefWeb w s)) = fetched s @ [ReliefWeb, GDACS, EONET])"
proof (intro conjI impI)
  assume "reliefweb_attempt (date_parse w) (reliefweb w) = Inr d"
  then show "fetchFromReliefWeb w s = (Inr d, s\<lparr>fetched := fetched s @ [ReliefWeb]\<rparr>)"
    by (rule primary_returns)
next
  assume a: "reliefweb_attempt (date_parse w) (reliefweb w) = Inl e \<and>
      fetchFromGDACS (date_parse w) (gdacs w) = Inr g \<and> g \<noteq> []"
  then show "fetchFromReliefWeb w s = (Inr g, s\<lparr>fetched := fetched s @ [ReliefWeb, GDACS]\<rparr>)"
    by (simp add: primary_throws alternatives_gdacs fetch_log_def)
next
  assume a: "reliefweb_attempt (date_parse w) (reliefweb w) = Inl e \<and>
      fails_or_empty (fetchFromGDACS (date_parse w) (gdacs w)) \<and>
      fetchFromEONET (date_parse w) (eonet w) = Inr n \<and> n \<noteq> []"
  then show "fetchFromReliefWeb w s = (Inr n, s\<lparr>fetched := fetched s @ [ReliefWeb, GDACS, EONET]\<rparr>)"
    by (simp add: primary_throws alternatives_eonet fetch_log_def)
next
  assume a: "reliefweb_attempt (date_parse w) (reliefweb w) = Inl e \<and>
      fails_or_empty (fetchFromGDACS (date_parse w) (gdacs w)) \<and>
      fails_or_empty (fetchFromEONET (date_parse w) (eonet w))"
  then show "fetched (snd (fetchFromReliefWeb w s)) = fetched s @ [ReliefWeb, GDACS, EONET]"
    by (simp add: primary_throws alternatives_sample fetch_log_def)
qed

text \<open>The four cases at concrete worlds, with an empty cache and an empty log.\<close>

theorem fallback_order_witness:
  "fetchFromReliefWeb world_reliefweb_up empty_feed =
     (reliefweb_attempt (date_parse world_reliefweb_up) (reliefweb world_reliefweb_up),
      empty_feed\<lparr>fetched := [ReliefWeb]\<rparr>)
   \<and> fetchFromReliefWeb world_gdacs_up empty_feed =
     (fetchFromGDACS (date_parse world_gdacs_up) (gdacs world_gdacs_up),
      empty_feed\<lparr>fetched := [ReliefWeb, GDACS]\<rparr>)
   \<and> fetchFromReliefWeb world_eonet_up empty_feed =
     (fetchFromEONET (date_parse world_eonet_up) (eonet world_eonet_up),
      empty_feed\<lparr>fetched := [ReliefWeb, GDACS, EONET]\<rparr>)
   \<and> fetched (snd (fetchFromReliefWeb offline empty_feed)) = [ReliefWeb, GDACS, EONET]"
proof (intro conjI)
  obtain d where d: "reliefweb_attempt (date_parse world_reliefweb_up) (reliefweb world_reliefweb_up) = Inr d"
    using reliefweb_up_attempt by blast
  with fallback_order [of world_reliefweb_up d empty_feed]
  show "fetchFromReliefWeb world_reliefweb_up empty_feed =
     (reliefweb_attempt (date_parse world_reliefweb_up) (reliefweb world_reliefweb_up),
      empty_feed\<lparr>fetched := [ReliefWeb]\<rparr>)"
    by (simp add: empty_feed_def)
next
  have p: "reliefweb_attempt (date_parse world_gdacs_up) (reliefweb world_gdacs_up) = Inl FetchRejected"
    by (simp add: world_gdacs_up_def offline_def rejected_attempt)
  obtain g where g: "fetchFromGDACS (date_parse world_gdacs_up) (gdacs world_gdacs_up) = Inr g" "g \<noteq> []"
    using cyclone_gdacs [of "date_parse world_gdacs_up"] by (auto simp add: world_gdacs_up_def)
  with p fallback_order [of world_gdacs_up _ empty_feed FetchRejected g]
  show "fetchFromReliefWeb world_gdacs_up empty_feed =
     (fetchFromGDACS (date_parse world_gdacs_up) (gdacs world_gdacs_up),
      empty_feed\<lparr>fetched := [ReliefWeb, GDACS]\<rparr>)"
    by (simp add: empty_feed_def)
next
  have p: "reliefweb_attempt (date_parse world_eonet_up) (reliefweb world_eonet_up) = Inl FetchRejected"
    by (simp add: world_eonet_up_def offline_def rejected_attempt)
  have q: "fails_or_empty (fetchFromGDACS (date_parse world_eonet_up) (gdacs world_eonet_up))"
    by (simp add: world_eonet_up_def quiet_gdacs fails_or_empty_def)
  obtain n where n: "fetchFromEONET (date_parse world_eonet_up) (eonet world_eonet_up) = Inr n" "n \<noteq> []"
    using fire_eonet [of "date_parse world_eonet_up"] by (auto simp add: world_eonet_up_def)
  with p q fallback_order [of world_eonet_up _ empty_feed FetchRejected _ n]
  show "fetchFromReliefWeb world_eonet_up empty_feed =
     (fetchFromEONET (date_parse world_eonet_up) (eonet world_eonet_up),
      empty_feed\<lparr>fetched := [ReliefWeb, GDACS, EONET]\<rparr>)"
    by (simp add: empty_feed_def)
next
  have p: "reliefweb_attempt (date_parse offline) (reliefweb offline) = Inl FetchRejected"
    by (simp add: offline_def rejected_attempt)
  have q: "fails_or_empty (fetchFromGDACS (date_parse offline) (gdacs offline))"
    by (simp add: offline_def rejected_gdacs fails_or_empty_def)
  have r: "fails_or_empty (fetchFromEONET (date_parse offline) (eonet offline))"
    by (simp add: offline_def rejected_eonet fails_or_empty_def)
  with p q fallback_order [of offline _ empty_feed FetchRejected]
  show "fetched (snd (fetchFromReliefWeb offline empty_feed)) = [ReliefWeb, GDACS, EONET]"
    by (simp add: empty_feed_def)
qed

text \<open>
  ReliefWeb answers with an empty list and GDACS holds an alert: the chain stops after
  ReliefWeb, GDACS is never fetched and the empty list is returned.
\<close>

theorem quiet_primary_ends_chain:
  "reliefweb_attempt (date_parse world_reliefweb_quiet) (reliefweb world_reliefweb_quiet) = Inr []
   \<and> \<not> fails_or_empty (fetchFromGDACS (date_parse world_reliefweb_quiet) (gdacs world_reliefweb_quiet))
   \<and> fetchFromReliefWeb world_reliefweb_quiet empty_feed = (Inr [], empty_feed\<lparr>fetched := [ReliefWeb]\<rparr>)"
proof -
  have a: "reliefweb_attempt (date_parse world_reliefweb_quiet) (reliefweb world_reliefweb_quiet) = Inr []"
    by (simp add: world_reliefweb_quiet_def quiet_attempt)
  obtain g where "fetchFromGDACS (date_parse world_reliefweb_quiet) (gdacs world_reliefweb_quiet) = Inr g" "g \<noteq> []"
    using cyclone_gdacs [of "date_parse world_reliefweb_quiet"] by (auto simp add: world_reliefweb_quiet_def)
  then have b: "\<not> fails_or_empty (fetchFromGDACS (date_parse world_reliefweb_quiet) (gdacs world_reliefweb_quiet))"
    by (simp add: fails_or_empty_def)
  from a have c: "fetchFromReliefWeb world_reliefweb_quiet empty_feed = (Inr [], empty_feed\<lparr>fetched := [ReliefWeb]\<rparr>)"
    by (simp add: fetchFromReliefWeb_def fetch_log_def empty_feed_def)
  from a b c show ?thesis by simp
qed

section \<open>The sample dataset\<close>

lemma getSampleData_columns:
  "map ev_id (fst (getSampleData w s)) = map JStr [''sample-1'', ''sample-2'', ''sample-3'', ''sample-4'']"
  "map disasterType (fst (getSampleData w s)) =
     map JStr [''Flood'', ''Earthquake'', ''Extreme Temperature'', ''Cyclone'']"
  "map date (fst (getSampleData w s)) =
     [Some (clock w (reads s) - 2 * day), Some (clock w (reads s + 1) - 5 * day),
      Some (clock w (reads s + 2) - 1 * day), Some (clock w (reads s + 3) - 3 * day)]"
  by (simp_all add: getSampleData_def Date_now_def eval_nat_numeral)

text \<open>
  Claim C2, as the code has it.  If the primary attempt throws and each alternate either
  throws or returns an empty list, the result is exactly the sample dataset of
  \<^verbatim>\<open>getSampleData\<close>: four events (flood, earthquake, extreme temperature, cyclone) with
  the ids \<^verbatim>\<open>sample-1\<close> to \<^verbatim>\<open>sample-4\<close>, dated 2, 5, 1 and 3 days before the four successive
  readings of the clock.  If the primary attempt returns an empty list, the result is that
  empty list and not the sample dataset.
\<close>

theorem sample_fallback:
  "(reliefweb_attempt (date_parse w) (reliefweb w) = Inl e \<and>
      fails_or_empty (fetchFromGDACS (date_parse w) (gdacs w)) \<and>
      fails_or_empty (fetchFromEONET (date_parse w) (eonet w)) \<longrightarrow>
      fst (fetchFromReliefWeb w s) = Inr (fst (getSampleData w s)))
   \<and> (reliefweb_attempt (date_parse w) (reliefweb w) = Inr [] \<longrightarrow>
      fst (fetchFromReliefWeb w s) = Inr [])
   \<and> map ev_id (fst (getSampleData w s)) =
        map JStr [''sample-1'', ''sample-2'', ''sample-3'', ''sample-4'']
   \<and> map disasterType (fst (getSampleData w s)) =
        map JStr [''Flood'', ''Earthquake'', ''Extreme Temperature'', ''Cyclone'']
   \<and> map date (fst (getSampleData w s)) =
        [Some (clock w (reads s) - 2 * day), Some (clock w (reads s + 1) - 5 * day),
         Some (clock w (reads s + 2) - 1 * day), Some (clock w (reads s + 3) - 3 * day)]"
proof (intro conjI impI)
  assume "reliefweb_attempt (date_parse w) (reliefweb w) = Inl e \<and>
      fails_or_empty (fetchFromGDACS (date_parse w) (gdacs w)) \<and>
      fails_or_empty (fetchFromEONET (date_parse w) (eonet w))"
  then show "fst (fetchFromReliefWeb w s) = Inr (fst (getSampleData w s))"
    by (simp add: primary_throws alternatives_sample getSampleData_fetch_log)
next
  assume "reliefweb_attempt (date_parse w) (reliefweb w) = Inr []"
  then show "fst (fetchFromReliefWeb w s) = Inr []"
    by (simp add: primary_returns)
qed (rule getSampleData_columns)+

text \<open>With every provider unreachable, and with ReliefWeb answering an empty list.\<close>

theorem sample_fallback_witness:
  "fst (fetchFromReliefWeb offline empty_feed) = Inr (fst (getSampleData offline empty_feed))
   \<and> fst (fetchFromReliefWeb world_only_reliefweb_quiet empty_feed) = Inr []
   \<and> map date (fst (getSampleData offline empty_feed)) =
       [Some 1699827200000, Some 1699568001000, Some 1699913602000, Some 1699740803000]"
proof -
  have p: "reliefweb_attempt (date_parse offline) (reliefweb offline) = Inl FetchRejected"
    by (simp add: offline_def rejected_attempt)
  have q: "fails_or_empty (fetchFromGDACS (date_parse offline) (gdacs offline))"
    by (simp add: offline_def rejected_gdacs fails_or_empty_def)
  have r: "fails_or_empty (fetchFromEONET (date_parse offline) (eonet offline))"
    by (simp add: offline_def rejected_eonet fails_or_empty_def)
  have u: "reliefweb_attempt (date_parse world_only_reliefweb_quiet)
             (reliefweb world_only_reliefweb_quiet) = Inr []"
    by (simp add: world_only_reliefweb_quiet_def quiet_attempt)
  have a: "fst (fetchFromReliefWeb offline empty_feed) = Inr (fst (getSampleData offline empty_feed))"
    using p q r sample_fallback [of offline FetchRejected empty_feed] by simp
  have b: "fst (fetchFromReliefWeb world_only_reliefweb_quiet empty_feed) = Inr []"
    using u sample_fallback [of world_only_reliefweb_quiet _ empty_feed] by simp
  have c: "map date (fst (getSampleData offline empty_feed)) =
       [Some 1699827200000, Some 1699568001000, Some 1699913602000, Some 1699740803000]"
    using sample_fallback [of offline _ empty_feed] by (simp add: offline_def empty_feed_def day_def)
  from a b c show ?thesis by simp
qed

text \<open>
  ReliefWeb answers with an empty list and both alternates are unreachable: every adapter
  throws or returns an empty list, yet the result is the empty list, while the sample
  dataset has four events.
\<close>

theorem quiet_primary_no_sample:
  "reliefweb_attempt (date_parse world_only_reliefweb_quiet) (reliefweb world_only_reliefweb_quiet) = Inr []
   \<and> fetchFromGDACS (date_parse world_only_reliefweb_quiet) (gdacs world_only_reliefweb_quiet) = Inl FetchRejected
   \<and> fetchFromEONET (date_parse world_only_reliefweb_quiet) (eonet world_only_reliefweb_quiet) = Inl FetchRejected
   \<and> fst (fetchFromReliefWeb world_only_reliefweb_quiet empty_feed) = Inr []
   \<and> length (fst (getSampleData world_only_reliefweb_quiet empty_feed)) = 4"
  by (simp add: world_only_reliefweb_quiet_def offline_def quiet_attempt rejected_gdacs rejected_eonet
      fetchFromReliefWeb_def getSampleData_def Date_now_def)

section \<open>Errors stay inside the pipeline\<close>

lemma alternatives_return: "\<exists>l s'. fetchFromAlternativeSources w s = (Inr l, s')"
  by (simp add: fetchFromAlternativeSources_def Let_def split: option.splits prod.splits)

lemma fetchFromReliefWeb_returns: "\<exists>l s'. fetchFromReliefWeb w s = (Inr l, s')"
  using alternatives_return by (simp add: fetchFromReliefWeb_def Let_def split: sum.splits)

lemma isCacheValid_hit:
  "isCacheValid w s = (True, s1) \<Longrightarrow> \<exists>d. cache_data s1 = Some d"
  by (auto simp add: isCacheValid_def Date_now_def split: option.splits if_splits)

lemma isCacheValid_cache:
  "isCacheValid w s = (b, s1) \<Longrightarrow>
     cache_data s1 = cache_data s \<and> cache_timestamp s1 = cache_timestamp s \<and> fetched s1 = fetched s"
  by (auto simp add: isCacheValid_def Date_now_def split: option.splits if_splits)

lemma isCacheValid_container: "isCacheValid w s = (b, s1) \<Longrightarrow> container s1 = container s"
  by (auto simp add: isCacheValid_def Date_now_def split: option.splits if_splits)

lemma fetchDisasterData_returns:
  assumes "container s \<or> fst (isCacheValid w s)"
  shows "\<exists>l s'. fetchDisasterData w s = (Inr (Some l), s')"
proof (cases "isCacheValid w s")
  case (Pair b s1)
  show ?thesis
  proof (cases b)
    case True
    with Pair have "isCacheValid w s = (True, s1)" by simp
    then obtain d where "cache_data s1 = Some d" using isCacheValid_hit by blast
    with Pair True show ?thesis
      by (simp add: fetchDisasterData_def fetchDisasterData_using_def)
  next
    case False
    with Pair assms have "container s" by simp
    with Pair have c: "container s1" using isCacheValid_container by blast
    obtain l s2 where "fetchFromReliefWeb w s1 = (Inr l, s2)"
      using fetchFromReliefWeb_returns by blast
    with Pair False c show ?thesis
      by (simp add: fetchDisasterData_def fetchDisasterData_using_def Date_now_def showLoading_def)
  qed
qed

lemma getSampleData_world:
  "getSampleData (w\<lparr>gdacs := g\<rparr>) s = getSampleData w s"
  "getSampleData (w\<lparr>eonet := n\<rparr>) s = getSampleData w s"
  by (simp_all add: getSampleData_def Date_now_def)

lemma gdacs_error_as_empty:
  assumes "fetchFromGDACS (date_parse w) (gdacs w) = Inl e"
  shows "fetchFromAlternativeSources w s = fetchFromAlternativeSources (w\<lparr>gdacs := gdacs_ok []\<rparr>) s"
proof -
  have "returned (fetchFromGDACS (date_parse w) (gdacs w)) = None"
    using assms by (simp add: returned_def)
  moreover have "returned (fetchFromGDACS (date_parse w) (gdacs_ok [])) = None"
    by (simp add: quiet_gdacs returned_def)
  ultimately show ?thesis
    by (simp add: fetchFromAlternativeSources_def Let_def getSampleData_world split: option.splits)
qed

lemma quiet_eonet: "fetchFromEONET p (eonet_ok []) = Inr []"
  by (simp add: fetchFromEONET_def eonet_ok_def)

lemma eonet_error_as_empty:
  assumes "fetchFromEONET (date_parse w) (eonet w) = Inl e"
  shows "fetchFromAlternativeSources w s = fetchFromAlternativeSources (w\<lparr>eonet := eonet_ok []\<rparr>) s"
proof -
  have "returned (fetchFromEONET (date_parse w) (eonet w)) = None"
    using assms by (simp add: returned_def)
  moreover have "returned (fetchFromEONET (date_parse w) (eonet_ok [])) = None"
    by (simp add: quiet_eonet returned_def)
  ultimately show ?thesis
    by (simp add: fetchFromAlternativeSources_def Let_def getSampleData_world split: option.splits)
qed

text \<open>
  Claim C9, as the code has it.  When the page holds the container element (or the cache
  is valid), \<^verbatim>\<open>fetchDisasterData\<close> returns a list whatever the three endpoints answer: it
  does not reject and does not return \<^verbatim>\<open>null\<close>.  \<^verbatim>\<open>fetchFromReliefWeb\<close> never rejects,
  whatever the endpoints answer.  An error of GDACS or of EONET has the same effect as an
  empty list from that source.  An error of the primary attempt starts the fallback chain;
  an empty list from the primary does not (it is returned).
\<close>

theorem errors_stay_inside:
  "(container s \<or> fst (isCacheValid w s) \<longrightarrow>
      (\<exists>l s'. fetchDisasterData w s = (Inr (Some l), s')))
   \<and> (\<exists>l s'. fetchFromReliefWeb w s = (Inr l, s'))
   \<and> (fetchFromGDACS (date_parse w) (gdacs w) = Inl e \<longrightarrow>
        fetchFromAlternativeSources w s = fetchFromAlternativeSources (w\<lparr>gdacs := gdacs_ok []\<rparr>) s)
   \<and> (fetchFromEONET (date_parse w) (eonet w) = Inl e \<longrightarrow>
        fetchFromAlternativeSources w s = fetchFromAlternativeSources (w\<lparr>eonet := eonet_ok []\<rparr>) s)
   \<and> (reliefweb_attempt (date_parse w) (reliefweb w) = Inl e \<longrightarrow>
        fetchFromReliefWeb w s = fetchFromAlternativeSources w (fetch_log ReliefWeb s))"
  using fetchDisasterData_returns fetchFromReliefWeb_returns gdacs_error_as_empty
    eonet_error_as_empty primary_throws by blast

text \<open>With every provider unreachable.\<close>

theorem errors_stay_inside_witness:
  "container empty_feed
   \<and> (\<exists>l s'. fetchDisasterData offline empty_feed = (Inr (Some l), s'))
   \<and> fetchFromAlternativeSources offline empty_feed =
       fetchFromAlternativeSources (offline\<lparr>gdacs := gdacs_ok []\<rparr>) empty_feed
   \<and> fetchFromAlternativeSources offline empty_feed =
       fetchFromAlternativeSources (offline\<lparr>eonet := eonet_ok []\<rparr>) empty_feed
   \<and> fetchFromReliefWeb offline empty_feed =
       fetchFromAlternativeSources offline (fetch_log ReliefWeb empty_feed)"
proof -
  have p: "reliefweb_attempt (date_parse offline) (reliefweb offline) = Inl FetchRejected"
    by (simp add: offline_def rejected_attempt)
  have q: "fetchFromGDACS (date_parse offline) (gdacs offline) = Inl FetchRejected"
    by (simp add: offline_def rejected_gdacs)
  have r: "fetchFromEONET (date_parse offline) (eonet offline) = Inl FetchRejected"
    by (simp add: offline_def rejected_eonet)
  have c: "container empty_feed" by (simp add: empty_feed_def)
  from c p q r errors_stay_inside [where w = offline and s = empty_feed and e = FetchRejected]
  show ?thesis by blast
qed

text \<open>
  Two worlds that differ only in ReliefWeb, rejected in one and answering an empty list in
  the other: the results differ, so an error of the primary is not treated like an empty
  result of the primary.  And a feed whose container element is missing: with an empty
  cache the call rejects with the \<^verbatim>\<open>TypeError\<close> of \<^verbatim>\<open>showLoading\<close>.
\<close>

theorem primary_error_is_not_empty:
  "reliefweb_attempt (date_parse offline) (reliefweb offline) = Inl FetchRejected
   \<and> reliefweb_attempt (date_parse world_only_reliefweb_quiet) (reliefweb world_only_reliefweb_quiet) = Inr []
   \<and> gdacs world_only_reliefweb_quiet = gdacs offline
   \<and> eonet world_only_reliefweb_quiet = eonet offline
   \<and> fst (fetchDisasterData world_only_reliefweb_quiet empty_feed) = Inr (Some [])
   \<and> fst (fetchDisasterData offline empty_feed) \<noteq> Inr (Some [])
   \<and> fst (fetchDisasterData offline (empty_feed\<lparr>container := False\<rparr>)) = Inl TypeError"
  by (simp add: world_only_reliefweb_quiet_def offline_def quiet_attempt rejected_attempt
      rejected_gdacs rejected_eonet fetchDisasterData_def fetchDisasterData_using_def
      isCacheValid_def empty_feed_def fetchFromReliefWeb_def fetchFromAlternativeSources_def
      returned_def getSampleData_def Date_now_def fetch_log_def showLoading_def)

section \<open>A failed fetch and the cache\<close>

lemma getSampleData_cache:
  assumes "getSampleData w s = (d, s')"
  shows "cache_data s' = cache_data s \<and> cache_timestamp s' = cache_timestamp s"
proof -
  have "s' = snd (getSampleData w s)" using assms by simp
  then show ?thesis by (simp add: getSampleData_state)
qed

lemma alternatives_keep_cache:
  "cache_data (snd (fetchFromAlternativeSources w s)) = cache_data s \<and>
   cache_timestamp (snd (fetchFromAlternativeSources w s)) = cache_timestamp s"
  by (auto simp add: fetchFromAlternativeSources_def Let_def fetch_log_def
      split: option.splits prod.splits dest: getSampleData_cache)

lemma fetch_keeps_cache:
  "cache_data (snd (fetchFromReliefWeb w s)) = cache_data s \<and>
   cache_timestamp (snd (fetchFromReliefWeb w s)) = cache_timestamp s"
  by (simp add: fetchFromReliefWeb_def Let_def alternatives_keep_cache fetch_log_def
      split: sum.splits)

lemma using_failure:
  assumes "isCacheValid w s = (False, s1)" and "container s1" and "primary w s1 = (Inl e, s2)"
  shows "fetchDisasterData_using primary w s =
           (if container s2 then Inr (Some []) else Inl TypeError, s2)"
  using assms by (simp add: fetchDisasterData_using_def showLoading_def showError_def)

lemma using_no_container:
  assumes "isCacheValid w s = (False, s1)" and "\<not> container s1"
  shows "fetchDisasterData_using primary w s = (Inl TypeError, s1)"
  using assms by (simp add: fetchDisasterData_using_def showLoading_def)

lemma using_success:
  assumes "isCacheValid w s = (False, s1)" and "container s1" and "primary w s1 = (Inr d, s2)"
  shows "fetchDisasterData_using primary w s =
           (Inr (Some d),
            s2\<lparr>reads := Suc (reads s2), cache_data := Some d,
               cache_timestamp := Some (clock w (reads s2))\<rparr>)"
  using assms by (simp add: fetchDisasterData_using_def Date_now_def showLoading_def)

text \<open>
  Claim C10.  \<^verbatim>\<open>fetchDisasterData\<close> writes the cache only after the method it awaits has
  returned.  If that method rejects (the error branch), the call leaves the state exactly
  as the rejected method left it, and returns the empty list when \<^verbatim>\<open>showError\<close> finds the
  container element (it rejects with the \<^verbatim>\<open>TypeError\<close> of \<^verbatim>\<open>showError\<close> otherwise); the
  validity check before it does not touch the cache either.  So when the awaited method
  itself leaves the cache alone, as \<^verbatim>\<open>fetchFromReliefWeb\<close> always does, the cached data and
  timestamp after the call are those before the call.  When \<^verbatim>\<open>showLoading\<close> finds no
  container element the method is not called at all and the state is the one the validity
  check left.  Only a method that returns a list \<open>d\<close> leads to a write, of \<open>d\<close> and of the
  time read after it returned.
\<close>

theorem failed_fetch_keeps_cache:
  "(isCacheValid w s = (False, s1) \<and> container s1 \<and> primary w s1 = (Inl e, s2) \<longrightarrow>
      fetchDisasterData_using primary w s =
        (if container s2 then Inr (Some []) else Inl TypeError, s2) \<and>
      cache_data s1 = cache_data s \<and> cache_timestamp s1 = cache_timestamp s)
   \<and> (isCacheValid w s = (False, s1) \<and> primary w s1 = (Inl e, s2) \<and>
      cache_data s2 = cache_data s1 \<and> cache_timestamp s2 = cache_timestamp s1 \<longrightarrow>
      cache_data (snd (fetchDisasterData_using primary w s)) = cache_data s \<and>
      cache_timestamp (snd (fetchDisasterData_using primary w s)) = cache_timestamp s)
   \<and> (isCacheValid w s = (False, s1) \<and> \<not> container s1 \<longrightarrow>
      fetchDisasterData_using primary w s = (Inl TypeError, s1) \<and>
      cache_data s1 = cache_data s \<and> cache_timestamp s1 = cache_timestamp s)
   \<and> (isCacheValid w s = (False, s1) \<and> container s1 \<and> primary w s1 = (Inr d, s2) \<longrightarrow>
      fetchDisasterData_using primary w s =
        (Inr (Some d),
         s2\<lparr>reads := Suc (reads s2), cache_data := Some d,
            cache_timestamp := Some (clock w (reads s2))\<rparr>))
   \<and> cache_data (snd (fetchFromReliefWeb w s)) = cache_data s
   \<and> cache_timestamp (snd (fetchFromReliefWeb w s)) = cache_timestamp s"
proof (intro conjI impI)
  assume a: "isCacheValid w s = (False, s1) \<and> container s1 \<and> primary w s1 = (Inl e, s2)"
  then show "fetchDisasterData_using primary w s =
        (if container s2 then Inr (Some []) else Inl TypeError, s2)"
    using using_failure by blast
  from a show "cache_data s1 = cache_data s" using isCacheValid_cache by blast
  from a show "cache_timestamp s1 = cache_timestamp s" using isCacheValid_cache by blast
next
  assume a: "isCacheValid w s = (False, s1) \<and> primary w s1 = (Inl e, s2) \<and>
      cache_data s2 = cache_data s1 \<and> cache_timestamp s2 = cache_timestamp s1"
  from a have c: "cache_data s1 = cache_data s \<and> cache_timestamp s1 = cache_timestamp s"
    using isCacheValid_cache by blast
  have r: "cache_data (snd (fetchDisasterData_using primary w s)) = cache_data s1 \<and>
           cache_timestamp (snd (fetchDisasterData_using primary w s)) = cache_timestamp s1"
  proof (cases "container s1")
    case True
    with a have "fetchDisasterData_using primary w s =
        (if container s2 then Inr (Some []) else Inl TypeError, s2)"
      using using_failure by blast
    with a show ?thesis by simp
  next
    case False
    with a have "fetchDisasterData_using primary w s = (Inl TypeError, s1)"
      using using_no_container by blast
    then show ?thesis by simp
  qed
  from r c show "cache_data (snd (fetchDisasterData_using primary w s)) = cache_data s" by simp
  from r c show "cache_timestamp (snd (fetchDisasterData_using primary w s)) = cache_timestamp s"
    by simp
next
  assume a: "isCacheValid w s = (False, s1) \<and> \<not> container s1"
  then show "fetchDisasterData_using primary w s = (Inl TypeError, s1)"
    using using_no_container by blast
  from a show "cache_data s1 = cache_data s" using isCacheValid_cache by blast
  from a show "cache_timestamp s1 = cache_timestamp s" using isCacheValid_cache by blast
next
  assume "isCacheValid w s = (False, s1) \<and> container s1 \<and> primary w s1 = (Inr d, s2)"
  then show "fetchDisasterData_using primary w s =
        (Inr (Some d),
         s2\<lparr>reads := Suc (reads s2), cache_data := Some d,
            cache_timestamp := Some (clock w (reads s2))\<rparr>)"
    using using_success by blast
qed (simp_all add: fetch_keeps_cache)

text \<open>
  A feed whose cache is stale, a primary that rejects: the call returns the empty list and
  the stale entry is still there.
\<close>

lemma stale_feed_invalid: "isCacheValid offline stale_feed = (False, stale_feed\<lparr>reads := 1\<rparr>)"
  by (simp add: isCacheValid_def stale_feed_def Date_now_def offline_def duration_def)

theorem failed_fetch_keeps_cache_witness:
  "isCacheValid offline stale_feed = (False, stale_feed\<lparr>reads := 1\<rparr>)
   \<and> container (stale_feed\<lparr>reads := 1\<rparr>)
   \<and> rejecting_primary offline (stale_feed\<lparr>reads := 1\<rparr>) =
       (Inl FetchRejected, stale_feed\<lparr>reads := 1, fetched := [ReliefWeb]\<rparr>)
   \<and> fst (fetchDisasterData_using rejecting_primary offline stale_feed) = Inr (Some [])
   \<and> cache_data (snd (fetchDisasterData_using rejecting_primary offline stale_feed)) =
       cache_data stale_feed
   \<and> cache_timestamp (snd (fetchDisasterData_using rejecting_primary offline stale_feed)) =
       Some 1600000000000"
proof -
  have p: "rejecting_primary offline (stale_feed\<lparr>reads := 1\<rparr>) =
       (Inl FetchRejected, stale_feed\<lparr>reads := 1, fetched := [ReliefWeb]\<rparr>)"
    by (simp add: rejecting_primary_def fetch_log_def stale_feed_def)
  have t: "cache_timestamp stale_feed = Some 1600000000000"
    by (simp add: stale_feed_def)
  have c: "container (stale_feed\<lparr>reads := 1\<rparr>)"
    "container (stale_feed\<lparr>reads := 1, fetched := [ReliefWeb]\<rparr>)"
    by (simp_all add: stale_feed_def)
  from stale_feed_invalid p t c
    failed_fetch_keeps_cache [where w = offline and s = stale_feed
      and ?s1.0 = "stale_feed\<lparr>reads := 1\<rparr>" and primary = rejecting_primary
      and e = FetchRejected and ?s2.0 = "stale_feed\<lparr>reads := 1, fetched := [ReliefWeb]\<rparr>"]
  show ?thesis by simp
qed

section \<open>The cache contract\<close>

lemma isCacheValid_iff:
  "fst (isCacheValid w s) =
     (\<exists>d t. cache_data s = Some d \<and> cache_timestamp s = Some t \<and> t \<noteq> 0 \<and>
            clock w (reads s) - t < 5 * 60 * 1000)"
  by (auto simp add: isCacheValid_def Date_now_def duration_def split: option.splits)

lemma cache_hit:
  assumes "cache_data s = Some d" and "cache_timestamp s = Some t" and "t \<noteq> 0"
    and "clock w (reads s) - t < 5 * 60 * 1000"
  shows "fetchDisasterData w s = (Inr (Some d), s\<lparr>reads := Suc (reads s)\<rparr>)"
  using assms
  by (simp add: fetchDisasterData_def fetchDisasterData_using_def isCacheValid_def Date_now_def
      duration_def)

lemma cache_expired:
  assumes "cache_timestamp s = Some t" and "5 * 60 * 1000 \<le> clock w (reads s) - t"
  shows "fst (isCacheValid w s) = False"
  using assms
  by (auto simp add: isCacheValid_def Date_now_def duration_def split: option.splits)

text \<open>
  Claim C8, where the code departs from it.  A first load in a world where ReliefWeb
  answers, with the clock reading 0 at the put: the list that the call returned is stored
  and stamped 0, so an entry exists.  At the next call, a second later, the time elapsed is
  far less than 5 minutes, and yet the validity check reports a miss
  (\<^verbatim>\<open>!this.cache.timestamp\<close> takes the stamp 0 for a missing one): the call fetches again and,
  every provider being unreachable by then, returns the sample list instead of the stored
  one.
\<close>

theorem put_at_epoch_then_miss:
  "fst (fetchDisasterData (world_reliefweb_up\<lparr>clock := epoch_clock\<rparr>) empty_feed) =
     Inr (cache_data feed_put_at_epoch)
   \<and> cache_data feed_put_at_epoch \<noteq> None
   \<and> cache_timestamp feed_put_at_epoch = Some 0
   \<and> epoch_clock (reads feed_put_at_epoch) - 0 < duration
   \<and> fst (isCacheValid (offline\<lparr>clock := epoch_clock\<rparr>) feed_put_at_epoch) = False
   \<and> fst (fetchDisasterData (offline\<lparr>clock := epoch_clock\<rparr>) feed_put_at_epoch) \<noteq>
       Inr (cache_data feed_put_at_epoch)
   \<and> fetched (snd (fetchDisasterData (offline\<lparr>clock := epoch_clock\<rparr>) feed_put_at_epoch)) =
       [ReliefWeb, ReliefWeb, GDACS, EONET]"
  by code_simp

section \<open>The EONET filter\<close>

lemma map_result_Inr:
  "map_result f xs = Inr ys \<Longrightarrow> list_all2 (\<lambda>x y. f x = Inr y) xs ys"
proof (induction xs arbitrary: ys)
  case Nil
  then show ?case by simp
next
  case (Cons x xs)
  then show ?case by (auto split: sum.splits)
qed

lemma in_india_box: "in_india ev = Inr b \<Longrightarrow> b = first_coordinate_in_box ev"
proof -
  have idx: "(num_ge (index cs 1) 8 \<and> num_le (index cs 1) 35 \<and> num_ge (index cs 0) 68 \<and> num_le (index cs 0) 97)
      = (case cs of lon # lat # rest \<Rightarrow> 8 \<le> lat \<and> lat \<le> 35 \<and> 68 \<le> lon \<and> lon \<le> 97 | _ \<Rightarrow> False)"
    for cs :: "rat list"
    by (cases cs; simp split: list.splits)
  assume "in_india ev = Inr b"
  then show ?thesis
    by (auto simp add: in_india_def first_coordinate_in_box_def idx
        split: option.splits list.splits)
qed

lemma filter_result_box:
  "filter_result in_india evs = Inr kept \<Longrightarrow> kept = filter first_coordinate_in_box evs"
proof (induction evs arbitrary: kept)
  case Nil
  then show ?case by simp
next
  case (Cons ev evs)
  then show ?case by (auto split: sum.splits dest: in_india_box)
qed

lemma eonet_to_event_fixed:
  assumes "eonet_to_event parse ev = Inr e"
  shows "severity e = JStr ''medium'' \<and> location e = ''India Region''"
proof -
  have "case eonet_to_event parse ev of
          Inl x \<Rightarrow> True
        | Inr e' \<Rightarrow> severity e' = JStr ''medium'' \<and> location e' = ''India Region''"
    by (simp add: eonet_to_event_def split: option.splits list.splits sum.splits)
  with assms show ?thesis by simp
qed

lemma fetchFromEONET_cases:
  assumes "fetchFromEONET parse resp = Inr out"
  shows "out = [] \<or> (\<exists>kept. map_result (eonet_to_event parse) kept = Inr out)"
proof (cases resp)
  case Rejected
  with assms show ?thesis by (simp add: fetchFromEONET_def)
next
  case (Response ok status body)
  show ?thesis
  proof (cases body)
    case None
    with assms Response show ?thesis by (simp add: fetchFromEONET_def split: if_splits)
  next
    case (Some data)
    show ?thesis
    proof (cases "events data")
      case None
      with assms Response Some show ?thesis by (simp add: fetchFromEONET_def split: if_splits)
    next
      case evs: (Some evs)
      show ?thesis
      proof (cases "filter_result in_india evs")
        case (Inl x)
        with assms Response Some evs show ?thesis
          by (simp add: fetchFromEONET_def split: if_splits)
      next
        case (Inr kept)
        with assms Response Some evs
        have "out = [] \<or> map_result (eonet_to_event parse) kept = Inr out"
          by (simp add: fetchFromEONET_def split: if_splits)
        then show ?thesis by blast
      qed
    qed
  qed
qed

lemma fetchFromEONET_events:
  assumes "fetchFromEONET parse resp = Inr out" and "e \<in> set out"
  shows "\<exists>ev. eonet_to_event parse ev = Inr e"
proof -
  from assms obtain kept where "map_result (eonet_to_event parse) kept = Inr out"
    using fetchFromEONET_cases by fastforce
  then have "list_all2 (\<lambda>x y. eonet_to_event parse x = Inr y) kept out" by (rule map_result_Inr)
  with assms(2) show ?thesis by (auto simp add: list_all2_conv_all_nth in_set_conv_nth)
qed

lemma fetchFromEONET_kept:
  assumes "fetchFromEONET parse (eonet_ok evs) = Inr out"
  shows "list_all2 (\<lambda>ev e. eonet_to_event parse ev = Inr e) (filter first_coordinate_in_box evs) out"
proof (cases evs)
  case Nil
  with assms show ?thesis by (simp add: fetchFromEONET_def eonet_ok_def)
next
  case (Cons a as)
  with assms obtain kept where k: "filter_result in_india evs = Inr kept"
    and m: "map_result (eonet_to_event parse) kept = Inr out"
    by (auto simp add: fetchFromEONET_def eonet_ok_def split: sum.splits)
  from k have "kept = filter first_coordinate_in_box evs" by (rule filter_result_box)
  with m show ?thesis using map_result_Inr by blast
qed

text \<open>
  Claim C5.  When the EONET adapter returns, the events it returns are the normalised
  forms of exactly those events of the payload whose first geometry lies inside the box
  (latitude 8 to 35, longitude 68 to 97), in the payload's order; every event it returns
  has severity \<^verbatim>\<open>medium\<close> and location \<^verbatim>\<open>India Region\<close>.  An event at longitude 100,
  latitude 20 is excluded and an event at longitude 80, latitude 20 is included.
\<close>

theorem eonet_filter:
  "(fetchFromEONET parse (eonet_ok evs) = Inr out \<longrightarrow>
      list_all2 (\<lambda>ev e. eonet_to_event parse ev = Inr e) (filter first_coordinate_in_box evs) out)
   \<and> (fetchFromEONET parse resp = Inr out \<and> e \<in> set out \<longrightarrow>
      severity e = JStr ''medium'' \<and> location e = ''India Region'')
   \<and> (geometry ev = Some (g # gs) \<and> coordinates g = Some [100, 20] \<longrightarrow>
      in_india ev = Inr False \<and> \<not> first_coordinate_in_box ev)
   \<and> (geometry ev = Some (g # gs) \<and> coordinates g = Some [80, 20] \<longrightarrow>
      in_india ev = Inr True \<and> first_coordinate_in_box ev)"
proof (intro conjI impI)
  assume "fetchFromEONET parse (eonet_ok evs) = Inr out"
  then show "list_all2 (\<lambda>ev e. eonet_to_event parse ev = Inr e) (filter first_coordinate_in_box evs) out"
    by (rule fetchFromEONET_kept)
next
  assume a: "fetchFromEONET parse resp = Inr out \<and> e \<in> set out"
  then obtain ev' where "eonet_to_event parse ev' = Inr e" using fetchFromEONET_events by blast
  then show "severity e = JStr ''medium''" "location e = ''India Region''"
    using eonet_to_event_fixed by blast+
next
  assume a: "geometry ev = Some (g # gs) \<and> coordinates g = Some [100, 20]"
  then show "in_india ev = Inr False" "\<not> first_coordinate_in_box ev"
    by (simp_all add: in_india_def first_coordinate_in_box_def)
next
  assume a: "geometry ev = Some (g # gs) \<and> coordinates g = Some [80, 20]"
  then show "in_india ev = Inr True" "first_coordinate_in_box ev"
    by (simp_all add: in_india_def first_coordinate_in_box_def)
qed

text \<open>A payload with one event at (80, 20) and one at (100, 20).\<close>

theorem eonet_filter_witness:
  "in_india (fire_event 100 20) = Inr False \<and> in_india (fire_event 80 20) = Inr True
   \<and> filter first_coordinate_in_box [fire_event 80 20, fire_event 100 20] = [fire_event 80 20]
   \<and> (\<exists>e. fetchFromEONET (date_parse offline) (eonet_ok [fire_event 80 20, fire_event 100 20]) = Inr [e]
          \<and> eonet_to_event (date_parse offline) (fire_event 80 20) = Inr e
          \<and> severity e = JStr ''medium'' \<and> location e = ''India Region'')"
proof -
  let ?evs = "[fire_event 80 20, fire_event 100 20]"
  have far: "in_india (fire_event 100 20) = Inr False \<and> \<not> first_coordinate_in_box (fire_event 100 20)"
    using eonet_filter [where ev = "fire_event 100 20" and gs = "[]" and
        g = "\<lparr> coordinates = Some [100, 20], g_date = Some (JsonString ''2024-04-01T00:00:00Z'') \<rparr>"]
    by (simp add: fire_event_def)
  have near: "in_india (fire_event 80 20) = Inr True \<and> first_coordinate_in_box (fire_event 80 20)"
    using eonet_filter [where ev = "fire_event 80 20" and gs = "[]" and
        g = "\<lparr> coordinates = Some [80, 20], g_date = Some (JsonString ''2024-04-01T00:00:00Z'') \<rparr>"]
    by (simp add: fire_event_def)
  from far near have kept: "filter first_coordinate_in_box ?evs = [fire_event 80 20]" by simp
  obtain out where out: "fetchFromEONET (date_parse offline) (eonet_ok ?evs) = Inr out"
    using far near
    by (simp add: fetchFromEONET_def eonet_ok_def)
      (simp add: eonet_to_event_def eonet_url_def fire_event_def)
  with kept eonet_filter [where parse = "date_parse offline" and evs = ?evs and out = out]
  have "list_all2 (\<lambda>ev e. eonet_to_event (date_parse offline) ev = Inr e) [fire_event 80 20] out"
    by simp
  then obtain e where e: "out = [e]" "eonet_to_event (date_parse offline) (fire_event 80 20) = Inr e"
    by (auto simp add: list_all2_Cons1)
  with out eonet_filter [where parse = "date_parse offline" and resp = "eonet_ok ?evs"
      and out = out and e = e]
  have "severity e = JStr ''medium'' \<and> location e = ''India Region''" by simp
  with far near kept out e show ?thesis by simp
qed

section \<open>Severity and date of the events\<close>













lemma sample_events:
  assumes "e \<in> set (fst (getSampleData w s))"
  shows "valid_severity (severity e) \<and> date e \<noteq> None"
proof -
  have "list_all (\<lambda>e. valid_severity (severity e) \<and> date e \<noteq> None) (fst (getSampleData w s))"
    by (simp add: getSampleData_def Date_now_def valid_severity_def)
  with assms show ?thesis by (simp add: list_all_iff)
qed




section \<open>Ranking before display\<close>

lemma mset_insert_sorted: "mset (insert_sorted cmp x ys) = add_mset x (mset ys)"
  by (induction ys) auto

lemma set_insert_sorted: "set (insert_sorted cmp x ys) = insert x (set ys)"
  by (induction ys) auto

lemma mset_stable_insertion: "mset (stable_insertion cmp xs) = mset xs"
  unfolding stable_insertion_def by (induction xs) (auto simp add: mset_insert_sorted)

lemma set_stable_insertion: "set (stable_insertion cmp xs) = set xs"
  unfolding stable_insertion_def by (induction xs) (auto simp add: set_insert_sorted)

lemma filter_insert_sorted:
  assumes "\<And>y. P x \<Longrightarrow> P y \<Longrightarrow> (case cmp x y of None \<Rightarrow> 0 | Some v \<Rightarrow> v) \<le> 0"
  shows "filter P (insert_sorted cmp x ys) = filter P (x # ys)"
proof (induction ys)
  case Nil
  then show ?case by simp
next
  case (Cons y ys)
  show ?case
  proof (cases "(case cmp x y of None \<Rightarrow> 0 | Some v \<Rightarrow> v) \<le> 0")
    case True
    then show ?thesis by simp
  next
    case False
    with assms have "\<not> (P x \<and> P y)" by blast
    with False Cons.IH show ?thesis by auto
  qed
qed

lemma filter_stable_insertion:
  assumes "\<And>x y. P x \<Longrightarrow> P y \<Longrightarrow> (case cmp x y of None \<Rightarrow> 0 | Some v \<Rightarrow> v) \<le> 0"
  shows "filter P (stable_insertion cmp xs) = filter P xs"
  unfolding stable_insertion_def
proof (induction xs)
  case Nil
  then show ?case by simp
next
  case (Cons x xs)
  have "filter P (insert_sorted cmp x (foldr (insert_sorted cmp) xs [])) =
        filter P (x # foldr (insert_sorted cmp) xs [])"
    using assms by (rule filter_insert_sorted)
  with Cons.IH show ?case by simp
qed

lemma compare_same_key:
  assumes "severity a = severity b" and "date a = date b"
  shows "(case compare_events a b of None \<Rightarrow> 0 | Some v \<Rightarrow> v) \<le> 0"
  using assms by (cases "date b") (simp_all add: compare_events_def)

lemma severityOrder_lookup:
  "get_property severityOrder (JStr ''high'') = Own 0"
  "get_property severityOrder (JStr ''medium'') = Own 1"
  "get_property severityOrder (JStr ''low'') = Own 2"
  by (simp_all add: get_property_def severityOrder_def)

lemma severityOrder_rank:
  assumes "valid_severity v"
  shows "get_property severityOrder v = Own (int (severity_rank v))"
proof -
  from assms consider "v = JStr ''high''" | "v = JStr ''medium''" | "v = JStr ''low''"
    unfolding valid_severity_def by blast
  then show ?thesis
    by cases (simp_all add: severityOrder_lookup severity_rank_def)
qed

lemma compare_well_formed:
  assumes "valid_severity (severity a)" and "valid_severity (severity b)"
    and "date a = Some ta" and "date b = Some tb"
  shows "((case compare_events a b of None \<Rightarrow> 0 | Some v \<Rightarrow> v) \<le> 0) = ranked_before a b"
proof (cases "severity_rank (severity a) = severity_rank (severity b)")
  case True
  with assms show ?thesis
    by (simp add: compare_events_def severityOrder_rank ranked_before_def)
next
  case False
  with assms show ?thesis
    by (simp add: compare_events_def severityOrder_rank ranked_before_def) linarith
qed

lemma ranked_before_total:
  assumes "valid_severity (severity a)" and "valid_severity (severity b)"
    and "date a = Some ta" and "date b = Some tb" and "\<not> ranked_before a b"
  shows "ranked_before b a"
  using assms by (auto simp add: ranked_before_def)

lemma ranked_before_trans:
  assumes "ranked_before a b" and "ranked_before b c"
  shows "ranked_before a c"
  using assms by (auto simp add: ranked_before_def split: option.splits)

lemma sorted_insert_sorted:
  assumes "well_formed x" and "\<forall>y\<in>set ys. well_formed y" and "sorted_wrt ranked_before ys"
  shows "sorted_wrt ranked_before (insert_sorted compare_events x ys)"
  using assms(2,3)
proof (induction ys)
  case Nil
  then show ?case by simp
next
  case (Cons y ys)
  from assms(1) obtain tx where tx: "date x = Some tx" and vx: "valid_severity (severity x)"
    by (auto simp add: well_formed_def)
  from Cons.prems(1) obtain ty where ty: "date y = Some ty" and vy: "valid_severity (severity y)"
    by (auto simp add: well_formed_def)
  note c = compare_well_formed [OF vx vy tx ty]
  show ?case
  proof (cases "ranked_before x y")
    case True
    with Cons.prems(2) have "\<forall>z\<in>set (y # ys). ranked_before x z"
      using ranked_before_trans by auto
    with True c Cons.prems(2) show ?thesis by simp
  next
    case False
    then have yx: "ranked_before y x" using ranked_before_total [OF vx vy tx ty] by simp
    from Cons have "sorted_wrt ranked_before (insert_sorted compare_events x ys)" by simp
    with False c yx Cons.prems(2) show ?thesis by (simp add: set_insert_sorted)
  qed
qed

lemma sorted_stable_insertion:
  assumes "\<forall>e\<in>set xs. well_formed e"
  shows "sorted_wrt ranked_before (stable_insertion compare_events xs)"
  using assms
proof (induction xs)
  case Nil
  then show ?case by (simp add: stable_insertion_def)
next
  case (Cons x xs)
  then have "sorted_wrt ranked_before (stable_insertion compare_events xs)" by simp
  moreover have "\<forall>y\<in>set (stable_insertion compare_events xs). well_formed y"
    using Cons.prems by (simp add: set_stable_insertion)
  moreover have "well_formed x" using Cons.prems by simp
  ultimately have "sorted_wrt ranked_before (insert_sorted compare_events x (stable_insertion compare_events xs))"
    using sorted_insert_sorted by blast
  then show ?case by (simp add: stable_insertion_def)
qed

lemma compare_events_well_formed:
  assumes "well_formed a" and "well_formed b"
  shows "compare_events a b =
           Some (if severity_rank (severity a) \<noteq> severity_rank (severity b)
                 then int (severity_rank (severity a)) - int (severity_rank (severity b))
                 else the (date b) - the (date a))"
proof -
  from assms obtain ta tb where "date a = Some ta" and "date b = Some tb"
    and "valid_severity (severity a)" and "valid_severity (severity b)"
    by (auto simp add: well_formed_def)
  then show ?thesis
    by (simp add: compare_events_def severityOrder_rank)
qed

lemma consistent_well_formed:
  assumes "\<forall>e\<in>set xs. well_formed e"
  shows "consistent_on compare_events xs"
proof -
  have "compare_events a b \<noteq> None \<and> eqCF compare_events a a \<and>
       (eqCF compare_events a b \<longrightarrow> eqCF compare_events b a) \<and>
       (eqCF compare_events a b \<and> eqCF compare_events b c \<longrightarrow> eqCF compare_events a c) \<and>
       (ltCF compare_events a b \<and> ltCF compare_events b c \<longrightarrow> ltCF compare_events a c) \<and>
       (gtCF compare_events a b \<and> gtCF compare_events b c \<longrightarrow> gtCF compare_events a c)"
    if "well_formed a" and "well_formed b" and "well_formed c" for a b c
  proof -
    note aa = compare_events_well_formed [OF that(1) that(1)]
    note ab = compare_events_well_formed [OF that(1) that(2)]
    note ba = compare_events_well_formed [OF that(2) that(1)]
    note bc = compare_events_well_formed [OF that(2) that(3)]
    note ac = compare_events_well_formed [OF that(1) that(3)]
    have 1: "compare_events a b \<noteq> None" using ab by simp
    have 2: "eqCF compare_events a a" using aa by (simp add: eqCF_def)
    have 3: "eqCF compare_events a b \<longrightarrow> eqCF compare_events b a"
      using ab ba by (simp add: eqCF_def split: if_splits)
    have 4: "eqCF compare_events a b \<and> eqCF compare_events b c \<longrightarrow> eqCF compare_events a c"
      using ab bc ac by (simp add: eqCF_def split: if_splits)
    have 5: "ltCF compare_events a b \<and> ltCF compare_events b c \<longrightarrow> ltCF compare_events a c"
      using ab bc ac by (simp add: ltCF_def split: if_splits)
    have 6: "gtCF compare_events a b \<and> gtCF compare_events b c \<longrightarrow> gtCF compare_events a c"
      using ab bc ac by (simp add: gtCF_def split: if_splits)
    from 1 2 3 4 5 6 show ?thesis by blast
  qed
  with assms show ?thesis
    unfolding consistent_on_def list_all_iff by blast
qed

lemma sort_well_formed:
  assumes "\<forall>e\<in>set xs. well_formed e"
  shows "sort_disasters xs ys = (ys = stable_insertion compare_events xs)"
  using consistent_well_formed [OF assms] by (simp add: sort_disasters_def array_sort_def)

lemma sort_rearranges:
  assumes "sort_disasters xs ys"
  shows "mset ys = mset xs"
  using assms
  by (simp add: sort_disasters_def array_sort_def mset_stable_insertion split: if_splits)

text \<open>
  Claim C7, for the lists it holds of.  \<^verbatim>\<open>render\<close> sorts the events with a comparator on
  severity and date.  For every list of events that carry one of the three severities and
  a valid date, the call has exactly one outcome: all high events first, then the medium
  ones, then the low ones, within one severity the later date first, and events with the
  same severity and the same date in the order they had (the sort is stable); it is a
  rearrangement of the input.  The list low at \<open>T2\<close>, high at \<open>T1\<close>, high at \<open>T3\<close> with
  \<open>T3\<close> later than \<open>T1\<close> is ranked high at \<open>T3\<close>, high at \<open>T1\<close>, low at \<open>T2\<close>, and in
  no other way.
\<close>

theorem ranking:
  "((\<forall>e\<in>set xs. valid_severity (severity e) \<and> date e \<noteq> None) \<longrightarrow>
      sort_disasters xs (stable_insertion compare_events xs) \<and>
      (sort_disasters xs ys \<and> sort_disasters xs zs \<longrightarrow> ys = zs) \<and>
      (sort_disasters xs ys \<longrightarrow>
         sorted_wrt ranked_before ys \<and>
         mset ys = mset xs \<and>
         filter (\<lambda>e. severity e = v \<and> date e = d) ys =
           filter (\<lambda>e. severity e = v \<and> date e = d) xs))
   \<and> (severity a = JStr ''low'' \<and> date a = Some T2 \<and>
      severity b = JStr ''high'' \<and> date b = Some T1 \<and>
      severity c = JStr ''high'' \<and> date c = Some T3 \<and> T1 < T3 \<longrightarrow>
      sort_disasters [a, b, c] ys = (ys = [c, b, a]))"
proof (intro conjI impI)
  assume "\<forall>e\<in>set xs. valid_severity (severity e) \<and> date e \<noteq> None"
  then have wf: "\<forall>e\<in>set xs. well_formed e" by (simp add: well_formed_def)
  note s = sort_well_formed [OF wf]
  show "sort_disasters xs (stable_insertion compare_events xs)" using s by simp
  show "ys = zs" if "sort_disasters xs ys \<and> sort_disasters xs zs"
    using that sort_well_formed [OF wf, of ys] sort_well_formed [OF wf, of zs] by simp
  show "sorted_wrt ranked_before ys" if "sort_disasters xs ys"
    using that sort_well_formed [OF wf, of ys] sorted_stable_insertion [OF wf] by simp
  show "mset ys = mset xs" if "sort_disasters xs ys"
    using that by (rule sort_rearranges)
  have "filter (\<lambda>e. severity e = v \<and> date e = d) (stable_insertion compare_events xs) =
       filter (\<lambda>e. severity e = v \<and> date e = d) xs"
    by (rule filter_stable_insertion) (simp add: compare_same_key)
  then show "filter (\<lambda>e. severity e = v \<and> date e = d) ys =
       filter (\<lambda>e. severity e = v \<and> date e = d) xs" if "sort_disasters xs ys"
    using that sort_well_formed [OF wf, of ys] by simp
next
  assume h: "severity a = JStr ''low'' \<and> date a = Some T2 \<and>
      severity b = JStr ''high'' \<and> date b = Some T1 \<and>
      severity c = JStr ''high'' \<and> date c = Some T3 \<and> T1 < T3"
  then have wf: "\<forall>e\<in>set [a, b, c]. well_formed e"
    by (simp add: well_formed_def valid_severity_def)
  from h have bc: "compare_events b c = Some (T3 - T1)"
    by (simp add: compare_events_def)
  from h have ac: "compare_events a c = Some 2"
    by (simp add: compare_events_def severityOrder_lookup)
  from h have ab: "compare_events a b = Some 2"
    by (simp add: compare_events_def severityOrder_lookup)
  from h have "\<not> T3 - T1 \<le> 0" by simp
  with bc ac ab have "stable_insertion compare_events [a, b, c] = [c, b, a]"
    by (simp add: stable_insertion_def)
  with sort_well_formed [OF wf, of ys] show "sort_disasters [a, b, c] ys = (ys = [c, b, a])"
    by simp
qed

text \<open>The sample dataset ranked, and the example list with the times 1, 2 and 3.\<close>

theorem ranking_witness:
  "list_all (\<lambda>e. valid_severity (severity e) \<and> date e \<noteq> None)
     (fst (getSampleData offline empty_feed))
   \<and> (\<exists>ys. sort_disasters (fst (getSampleData offline empty_feed)) ys \<and>
          sorted_wrt ranked_before ys \<and>
          map ev_id ys = map JStr [''sample-1'', ''sample-4'', ''sample-3'', ''sample-2''])
   \<and> sort_disasters
       [bare_event ''low'' (Some 2), bare_event ''high'' (Some 1), bare_event ''high'' (Some 3)]
       [bare_event ''high'' (Some 3), bare_event ''high'' (Some 1), bare_event ''low'' (Some 2)]"
proof -
  let ?L = "fst (getSampleData offline empty_feed)"
  let ?S = "stable_insertion compare_events ?L"
  have wf: "\<forall>e\<in>set ?L. valid_severity (severity e) \<and> date e \<noteq> None"
    using sample_events by blast
  note r = ranking [where xs = ?L and ys = ?S]
  from wf r have o: "sort_disasters ?L ?S" by blast
  with wf r have s: "sorted_wrt ranked_before ?S" by blast
  have i: "map ev_id ?S = map JStr [''sample-1'', ''sample-4'', ''sample-3'', ''sample-2'']"
    by code_simp
  have e: "sort_disasters
       [bare_event ''low'' (Some 2), bare_event ''high'' (Some 1), bare_event ''high'' (Some 3)]
       [bare_event ''high'' (Some 3), bare_event ''high'' (Some 1), bare_event ''low'' (Some 2)]"
    using ranking [where a = "bare_event ''low'' (Some 2)" and b = "bare_event ''high'' (Some 1)"
        and c = "bare_event ''high'' (Some 3)" and ?T1.0 = 1 and ?T2.0 = 2 and ?T3.0 = 3
        and ys = "[bare_event ''high'' (Some 3), bare_event ''high'' (Some 1),
                   bare_event ''low'' (Some 2)]"]
    by (simp add: bare_event_def)
  from wf o s i e show ?thesis by (auto simp add: list_all_iff)
qed

text \<open>
  Three high events, dated 1, undated and dated 3, in this order: an undated report is what
  the ReliefWeb adapter makes of a record without date.  The comparator answers \<^verbatim>\<open>NaN\<close> for
  the undated event, so it is not consistent on this list, and the call may leave the list
  as it is: the event dated 1 then stays ahead of the one dated 3, against date descending.
  Another arrangement may result as well, so the outcome is not determined by the list.
\<close>

theorem undated_event_unranked:
  "compare_events (bare_event ''high'' (Some 1)) (bare_event ''high'' None) = None
   \<and> \<not> consistent_on compare_events
         [bare_event ''high'' (Some 1), bare_event ''high'' None, bare_event ''high'' (Some 3)]
   \<and> sort_disasters
       [bare_event ''high'' (Some 1), bare_event ''high'' None, bare_event ''high'' (Some 3)]
       [bare_event ''high'' (Some 1), bare_event ''high'' None, bare_event ''high'' (Some 3)]
   \<and> \<not> ranked_before (bare_event ''high'' (Some 1)) (bare_event ''high'' (Some 3))
   \<and> \<not> sorted_wrt ranked_before
         [bare_event ''high'' (Some 1), bare_event ''high'' None, bare_event ''high'' (Some 3)]
   \<and> sort_disasters
       [bare_event ''high'' (Some 1), bare_event ''high'' None, bare_event ''high'' (Some 3)]
       [bare_event ''high'' (Some 3), bare_event ''high'' (Some 1), bare_event ''high'' None]"
proof -
  let ?a = "bare_event ''high'' (Some 1)"
  let ?n = "bare_event ''high'' None"
  let ?c = "bare_event ''high'' (Some 3)"
  have 1: "compare_events ?a ?n = None"
    by (simp add: compare_events_def bare_event_def)
  then have 2: "\<not> consistent_on compare_events [?a, ?n, ?c]"
    by (simp add: consistent_on_def)
  then have 3: "sort_disasters [?a, ?n, ?c] [?a, ?n, ?c]"
    by (simp add: sort_disasters_def array_sort_def)
  have 4: "\<not> ranked_before ?a ?c"
    by (simp add: ranked_before_def bare_event_def)
  then have 5: "\<not> sorted_wrt ranked_before [?a, ?n, ?c]" by simp
  from 2 have 6: "sort_disasters [?a, ?n, ?c] [?c, ?a, ?n]"
    by (simp add: sort_disasters_def array_sort_def)
  from 1 2 3 4 5 6 show ?thesis by blast
qed

section \<open>Further properties\<close>

text \<open>
  The two GDACS lookups on every string: a code of the table gives its label, the name of
  an inherited member gives that member, and any other code passes through unchanged
  (any other alert level gives \<^verbatim>\<open>low\<close>).
\<close>

theorem gdacs_lookup_characterised:
  "mapGDACSEventType (JStr c) =
     (case map_of gdacs_event_types c of
        Some label \<Rightarrow> JStr label
      | None \<Rightarrow> if c \<in> set object_prototype_keys then JProto c else JStr c)
   \<and> mapGDACSAlertLevel (JStr c) =
     (case map_of gdacs_alert_levels c of
        Some sev \<Rightarrow> JStr sev
      | None \<Rightarrow> if c \<in> set object_prototype_keys then JProto c else JStr ''low'')"
proof -
  have e: "map_of gdacs_event_types c = Some label \<Longrightarrow> label \<noteq> []" for label
    by (auto simp add: gdacs_event_types_def split: if_splits)
  have a: "map_of gdacs_alert_levels c = Some sev \<Longrightarrow> sev \<noteq> []" for sev
    by (auto simp add: gdacs_alert_levels_def split: if_splits)
  show ?thesis
    using e a
    by (auto simp add: mapGDACSEventType_def mapGDACSAlertLevel_def get_property_def js_or_def
        split: option.splits)
qed

text \<open>
  \<^verbatim>\<open>clearCache\<close> empties both cache fields whatever they held and touches nothing else;
  the validity check that follows reports a miss without reading the clock.
\<close>

theorem clearCache_resets:
  "cache_data (clearCache s) = None \<and> cache_timestamp (clearCache s) = None
   \<and> reads (clearCache s) = reads s \<and> fetched (clearCache s) = fetched s
   \<and> container (clearCache s) = container s
   \<and> isCacheValid w (clearCache s) = (False, clearCache s)"
  by (simp add: clearCache_def isCacheValid_def)

text \<open>
  An ok response whose payload has no records, or an empty array of records, makes each
  adapter return the empty list: it does not throw.
\<close>

theorem empty_payloads_return_empty:
  "reliefweb_attempt p (Response True st (Some \<lparr> rw_data = None \<rparr>)) = Inr []
   \<and> reliefweb_attempt p (Response True st (Some \<lparr> rw_data = Some [] \<rparr>)) = Inr []
   \<and> fetchFromGDACS p (Response True st (Some \<lparr> features = None \<rparr>)) = Inr []
   \<and> fetchFromGDACS p (Response True st (Some \<lparr> features = Some [] \<rparr>)) = Inr []
   \<and> fetchFromEONET p (Response True st (Some \<lparr> events = None \<rparr>)) = Inr []
   \<and> fetchFromEONET p (Response True st (Some \<lparr> events = Some [] \<rparr>)) = Inr []"
  by (simp add: reliefweb_attempt_def fetchFromGDACS_def fetchFromEONET_def)

text \<open>
  The cache away from the epoch.  \<^verbatim>\<open>isCacheValid\<close> reports a hit if and only if data and
  timestamp are both set, the timestamp is not 0, and the time elapsed since the stamp is
  strictly less than 5 minutes.  On a miss, when the container element exists,
  \<^verbatim>\<open>fetchDisasterData\<close> stores the list that the pipeline returned and stamps the time
  it reads then (put).  On a hit it returns exactly the stored list, fetches nothing and
  changes nothing but the count of clock readings (get).  Once 5 minutes or more have
  elapsed since the stamp, the check reports a miss.
\<close>

theorem cache_contract:
  "fst (isCacheValid w s) =
     (\<exists>d t. cache_data s = Some d \<and> cache_timestamp s = Some t \<and> t \<noteq> 0 \<and>
            clock w (reads s) - t < 5 * 60 * 1000)
   \<and> (isCacheValid w s = (False, s1) \<and> container s1 \<and>
      fetchFromReliefWeb w s1 = (Inr d, s2) \<longrightarrow>
      fetchDisasterData w s =
        (Inr (Some d),
         s2\<lparr>reads := Suc (reads s2), cache_data := Some d,
            cache_timestamp := Some (clock w (reads s2))\<rparr>))
   \<and> (cache_data s = Some d \<and> cache_timestamp s = Some t \<and> t \<noteq> 0 \<and>
      clock w (reads s) - t < 5 * 60 * 1000 \<longrightarrow>
      fetchDisasterData w s = (Inr (Some d), s\<lparr>reads := Suc (reads s)\<rparr>))
   \<and> (cache_timestamp s = Some t \<and> 5 * 60 * 1000 \<le> clock w (reads s) - t \<longrightarrow>
      fst (isCacheValid w s) = False)"
proof (intro conjI impI)
  show "fst (isCacheValid w s) =
     (\<exists>d t. cache_data s = Some d \<and> cache_timestamp s = Some t \<and> t \<noteq> 0 \<and>
            clock w (reads s) - t < 5 * 60 * 1000)"
    by (rule isCacheValid_iff)
next
  assume "isCacheValid w s = (False, s1) \<and> container s1 \<and>
      fetchFromReliefWeb w s1 = (Inr d, s2)"
  then show "fetchDisasterData w s =
        (Inr (Some d),
         s2\<lparr>reads := Suc (reads s2), cache_data := Some d,
            cache_timestamp := Some (clock w (reads s2))\<rparr>)"
    by (simp add: fetchDisasterData_def using_success)
next
  assume "cache_data s = Some d \<and> cache_timestamp s = Some t \<and> t \<noteq> 0 \<and>
      clock w (reads s) - t < 5 * 60 * 1000"
  then show "fetchDisasterData w s = (Inr (Some d), s\<lparr>reads := Suc (reads s)\<rparr>)"
    by (simp add: cache_hit)
next
  assume "cache_timestamp s = Some t \<and> 5 * 60 * 1000 \<le> clock w (reads s) - t"
  then show "fst (isCacheValid w s) = False"
    using cache_expired by blast
qed

text \<open>
  A put in a world where ReliefWeb answers, then a get one second later in a world where
  every request would be rejected: the get returns the same list and the log still holds
  the one fetch of the put.  A stale cache and an empty cache are misses.
\<close>

theorem cache_contract_witness:
  "fst (fetchDisasterData offline (snd (fetchDisasterData world_reliefweb_up empty_feed))) =
     fst (fetchDisasterData world_reliefweb_up empty_feed)
   \<and> fetched (snd (fetchDisasterData offline (snd (fetchDisasterData world_reliefweb_up empty_feed)))) =
       [ReliefWeb]
   \<and> cache_timestamp (snd (fetchDisasterData world_reliefweb_up empty_feed)) = Some 1700000000000
   \<and> fst (isCacheValid offline stale_feed) = False
   \<and> fst (isCacheValid offline empty_feed) = False"
proof -
  let ?w = world_reliefweb_up
  have v: "isCacheValid ?w empty_feed = (False, empty_feed)"
    by (simp add: isCacheValid_def empty_feed_def)
  obtain d where "reliefweb_attempt (date_parse ?w) (reliefweb ?w) = Inr d"
    using reliefweb_up_attempt by blast
  then have f: "fetchFromReliefWeb ?w empty_feed = (Inr d, empty_feed\<lparr>fetched := [ReliefWeb]\<rparr>)"
    by (simp add: primary_returns empty_feed_def)
  define S where "S = \<lparr> cache_data = Some d, cache_timestamp = Some 1700000000000,
    container = True, reads = 1, fetched = [ReliefWeb] \<rparr>"
  have put: "fetchDisasterData ?w empty_feed = (Inr (Some d), S)"
    using v f cache_contract [where w = ?w and s = empty_feed and ?s1.0 = empty_feed and d = d
        and ?s2.0 = "empty_feed\<lparr>fetched := [ReliefWeb]\<rparr>"]
    by (simp add: S_def empty_feed_def world_reliefweb_up_def offline_def)
  have get: "fetchDisasterData offline S = (Inr (Some d), S\<lparr>reads := 2\<rparr>)"
    using cache_contract [where w = offline and s = S and d = d and t = 1700000000000]
    by (simp add: S_def offline_def)
  have stale: "fst (isCacheValid offline stale_feed) = False"
    using cache_contract [where w = offline and s = stale_feed and t = 1600000000000]
    by (simp add: stale_feed_def offline_def)
  have none: "fst (isCacheValid offline empty_feed) = False"
    using cache_contract [where w = offline and s = empty_feed] by (simp add: empty_feed_def)
  from put get stale none show ?thesis by (simp add: S_def)
qed

end
